theory Spec2Isabelle
  imports Main "HOL-Library.Word" "HOL-Library.Sublist"
begin

section \<open>Common values: errors and panics\<close>

text \<open>
  A Go \<open>error\<close> is an interface value; \<open>nil\<close> is modelled by \<open>None\<close> of
  \<open>error option\<close>, and a function returning \<open>(T, error)\<close> by \<open>error + T\<close>.
  The three sentinel errors of the purge client are named as in the source; an
  \<open>*HTTPError\<close> carries its \<open>StatusCode\<close>; every other error value is \<open>OtherError\<close>.
\<close>

datatype error =
    ErrMissingURL
  | ErrMissingService
  | ErrMissingKey
  | HTTPError int
  | OtherError string

text \<open>
  A run-time panic is not an \<open>error\<close> return: it unwinds the caller. The two panics
  the code can raise are the assignment to an entry of a nil map and a failed type
  assertion \<open>x.(T)\<close> (also on a missing key, whose lookup yields the nil interface).
  A function that may panic returns \<open>panic + 'a\<close>.
\<close>

datatype panic =
    AssignNilMap
  | InterfaceConversion string

section \<open>The purge client\<close>

subsection \<open>Data\<close>

record Purge =
  Status :: string
  ID :: string

record PurgeInput =
  URL :: string
  Soft :: bool

record PurgeKeyInput =
  Service :: string
  Key :: string
  Soft :: bool

record PurgeAllInput =
  Service :: string
  Soft :: bool

text \<open>
  Modelled from the spec: the declaration of \<open>RequestOptions\<close> is not in the source
  file. The spec only says that a purge is marked soft "via a request header"; the two
  fields are taken as \<open>Purge\<close> and \<open>PurgeKey\<close> use them: \<open>Parallel\<close> is assigned a
  bool, and \<open>Headers\<close> is indexed by a string and assigned a string, so it is a Go map
  from strings to strings. The zero value of a map type is the nil map, modelled by
  \<open>None\<close>; \<open>new(RequestOptions)\<close> is the zero value of the struct.
\<close>

record RequestOptions =
  Parallel :: bool
  Headers :: "(string \<rightharpoonup> string) option"

definition new_RequestOptions :: RequestOptions where
  "new_RequestOptions = \<lparr>Parallel = False, Headers = None\<rparr>"

text \<open>
  \<open>m[k] = v\<close> on a Go map: a nil map panics, any other map is updated.
\<close>

definition map_assign ::
  "(string \<rightharpoonup> string) option \<Rightarrow> string \<Rightarrow> string \<Rightarrow> panic + (string \<rightharpoonup> string) option" where
  "map_assign m k v = (case m of None \<Rightarrow> Inl AssignNilMap | Some f \<Rightarrow> Inr (Some (f(k \<mapsto> v))))"

text \<open>
  An \<open>*http.Request\<close> as far as the purge client touches it: the method and path it was
  built from, and its header. \<open>req.Header.Set(k, v)\<close> replaces the values of \<open>k\<close> by
  the single value \<open>v\<close>.
\<close>

record Request =
  Method :: string
  Path :: string
  Header :: "string \<rightharpoonup> string"

definition Header_Set :: "Request \<Rightarrow> string \<Rightarrow> string \<Rightarrow> Request" where
  "Header_Set req k v = req\<lparr>Header := (Header req)(k \<mapsto> v)\<rparr>"

text \<open>
  The collaborators of the purge functions are absent from the source file and are
  parameters of the model: \<open>c.Post\<close> (which sends), \<open>c.RawRequest\<close> (which only builds
  a request), \<open>c.HTTPClient.Do\<close> (which sends), \<open>checkResp\<close> and \<open>decodeJSON\<close>. A
  response is represented by its body. The \<open>*RequestOptions\<close> argument of
  \<open>RawRequest\<close> may be the nil pointer (\<open>None\<close>).
\<close>

record Client =
  Post :: "string \<Rightarrow> RequestOptions \<Rightarrow> error + string"
  RawRequest :: "string \<Rightarrow> string \<Rightarrow> RequestOptions option \<Rightarrow> error + Request"
  HTTPClient_Do :: "Request \<Rightarrow> error + string"
  checkResp :: "error + string \<Rightarrow> error + string"
  decodeJSON :: "string \<Rightarrow> error + Purge"

text \<open>
  The network calls a purge function makes are logged, in order: a call of \<open>c.Post\<close>
  with its path and options, or a call of \<open>c.HTTPClient.Do\<close> with its request.
\<close>

datatype net_call =
    PostCall string RequestOptions
  | DoCall Request

subsection \<open>Purge, PurgeKey, PurgeAll\<close>

text \<open>The common tail of the three functions: decode the body of the response.\<close>

definition decode_response :: "Client \<Rightarrow> error + string \<Rightarrow> error + Purge" where
  "decode_response c r = (case r of Inl err \<Rightarrow> Inl err | Inr body \<Rightarrow> decodeJSON c body)"

definition Purge :: "Client \<Rightarrow> PurgeInput \<Rightarrow> (panic + (error + Purge)) \<times> net_call list" where
  "Purge c i =
     (if PurgeInput.URL i = '''' then (Inr (Inl ErrMissingURL), [])
      else
        let ro = new_RequestOptions\<lparr>Parallel := True\<rparr> in
        case (if PurgeInput.Soft i
              then (case map_assign (Headers ro) ''Fastly-Soft-Purge'' ''1'' of
                      Inl p \<Rightarrow> Inl p
                    | Inr h \<Rightarrow> Inr (ro\<lparr>Headers := h\<rparr>))
              else Inr ro) of
          Inl p \<Rightarrow> (Inl p, [])
        | Inr ro' \<Rightarrow>
            (Inr (decode_response c (Post c (''purge/'' @ PurgeInput.URL i) ro')),
             [PostCall (''purge/'' @ PurgeInput.URL i) ro']))"

definition PurgeKey :: "Client \<Rightarrow> PurgeKeyInput \<Rightarrow> (panic + (error + Purge)) \<times> net_call list" where
  "PurgeKey c i =
     (if PurgeKeyInput.Service i = '''' then (Inr (Inl ErrMissingService), [])
      else if PurgeKeyInput.Key i = '''' then (Inr (Inl ErrMissingKey), [])
      else
        let path = ''/service/'' @ PurgeKeyInput.Service i @ ''/purge/'' @ PurgeKeyInput.Key i;
            ro = new_RequestOptions\<lparr>Parallel := True\<rparr>
        in case RawRequest c ''POST'' path (Some ro) of
             Inl err \<Rightarrow> (Inr (Inl err), [])
           | Inr req \<Rightarrow>
               let req' = (if PurgeKeyInput.Soft i
                           then Header_Set req ''Fastly-Soft-Purge'' ''1'' else req)
               in (Inr (decode_response c (checkResp c (HTTPClient_Do c req'))), [DoCall req']))"

definition PurgeAll :: "Client \<Rightarrow> PurgeAllInput \<Rightarrow> (panic + (error + Purge)) \<times> net_call list" where
  "PurgeAll c i =
     (if PurgeAllInput.Service i = '''' then (Inr (Inl ErrMissingService), [])
      else
        let path = ''/service/'' @ PurgeAllInput.Service i @ ''/purge_all''
        in case RawRequest c ''POST'' path None of
             Inl err \<Rightarrow> (Inr (Inl err), [])
           | Inr req \<Rightarrow>
               let req' = (if PurgeAllInput.Soft i
                           then Header_Set req ''Fastly-Soft-Purge'' ''1'' else req)
               in (Inr (decode_response c (checkResp c (HTTPClient_Do c req'))), [DoCall req']))"

section \<open>The HTTPS logging block of the Terraform provider\<close>

subsection \<open>Dynamic values and configuration maps\<close>

text \<open>
  An \<open>interface{}\<close> value holds a dynamic type and a value. The dynamic types that occur
  are \<open>string\<close>, \<open>int\<close>, \<open>uint\<close> and \<open>bool\<close>; Go's \<open>int\<close> and \<open>uint\<close> have the same
  width, 64 bits on the usual targets. Both are 64-bit words: an \<open>int\<close> is read with
  \<open>sint\<close> (two's complement), a \<open>uint\<close> with \<open>uint\<close> or \<open>unat\<close>. A
  \<open>map[string]interface{}\<close> is a partial map; looking up a missing key yields the nil
  interface, here \<open>None\<close>.
\<close>

type_synonym go_int = "64 word"
type_synonym go_uint = "64 word"

datatype val =
    VString string
  | VInt go_int
  | VUint go_uint
  | VBool bool

type_synonym cfg = "string \<rightharpoonup> val"

text \<open>
  The conversion \<open>uint(x)\<close> of an \<open>int\<close>: the signed value is extended to unbounded
  precision and then truncated to the 64 bits of the result.
\<close>

definition to_uint :: "go_int \<Rightarrow> go_uint" where
  "to_uint x = word_of_int (sint x)"

text \<open>
  The type assertions \<open>df[k].(string)\<close> and \<open>df[k].(int)\<close>: they panic unless the
  dynamic type of the value is the asserted one, hence also on the nil interface of a
  missing key.
\<close>

definition assert_string :: "cfg \<Rightarrow> string \<Rightarrow> panic + string" where
  "assert_string df k =
     (case df k of Some (VString s) \<Rightarrow> Inr s | _ \<Rightarrow> Inl (InterfaceConversion k))"

definition assert_int :: "cfg \<Rightarrow> string \<Rightarrow> panic + go_int" where
  "assert_int df k =
     (case df k of Some (VInt n) \<Rightarrow> Inr n | _ \<Rightarrow> Inl (InterfaceConversion k))"

text \<open>Sequencing of computations that may panic: the first panic wins.\<close>

definition bind :: "panic + 'a \<Rightarrow> ('a \<Rightarrow> panic + 'b) \<Rightarrow> panic + 'b" where
  "bind m f = (case m of Inl p \<Rightarrow> Inl p | Inr x \<Rightarrow> f x)"

subsection \<open>API inputs and the server-side record\<close>

text \<open>
  Modelled from the spec: the declarations of \<open>gofastly.HTTPS\<close>,
  \<open>gofastly.CreateHTTPSInput\<close> and \<open>gofastly.DeleteHTTPSInput\<close> are not in the source.
  Their fields are the ones the source reads and writes; the numeric fields are the
  API's unsigned integers ("the API's expected unsigned-integer representation"), as the
  conversions \<open>uint(...)\<close> in \<open>buildCreateHTTPS\<close> require, and all others are strings.
\<close>

record HTTPS =
  Name :: string
  ResponseCondition :: string
  Format :: string
  URL :: string
  RequestMaxEntries :: go_uint
  RequestMaxBytes :: go_uint
  ContentType :: string
  HeaderName :: string
  HeaderValue :: string
  Method :: string
  JSONFormat :: string
  Placement :: string
  TLSCACert :: string
  TLSClientCert :: string
  TLSClientKey :: string
  TLSHostname :: string
  MessageType :: string
  FormatVersion :: go_uint

record CreateHTTPSInput =
  Service :: string
  Version :: go_int
  Name :: string
  URL :: string
  RequestMaxEntries :: go_uint
  RequestMaxBytes :: go_uint
  ContentType :: string
  HeaderName :: string
  HeaderValue :: string
  Method :: string
  JSONFormat :: string
  TLSCACert :: string
  TLSClientCert :: string
  TLSClientKey :: string
  TLSHostname :: string
  Format :: string
  FormatVersion :: go_uint
  MessageType :: string
  Placement :: string
  ResponseCondition :: string

record DeleteHTTPSInput =
  Service :: string
  Version :: go_int
  Name :: string

subsection \<open>flattenHTTPS\<close>

text \<open>
  The pruning loop deletes every key whose value \<open>v\<close> satisfies \<open>v == ""\<close>. Comparing
  an interface value with a string is true only when the dynamic type is \<open>string\<close> and
  the value is the empty string. Deleting during the iteration is safe in Go, and each key
  is decided by its own value, so the loop is a filter of the map.
\<close>

definition prune :: "cfg \<Rightarrow> cfg" where
  "prune nhl = (\<lambda>k. case nhl k of
                       None \<Rightarrow> None
                     | Some v \<Rightarrow> if v = VString '''' then None else Some v)"

definition flatten_one :: "HTTPS \<Rightarrow> cfg" where
  "flatten_one hl = prune (map_of
     [(''name'', VString (HTTPS.Name hl)),
      (''response_condition'', VString (HTTPS.ResponseCondition hl)),
      (''format'', VString (HTTPS.Format hl)),
      (''url'', VString (HTTPS.URL hl)),
      (''request_max_entries'', VUint (HTTPS.RequestMaxEntries hl)),
      (''request_max_bytes'', VUint (HTTPS.RequestMaxBytes hl)),
      (''content_type'', VString (HTTPS.ContentType hl)),
      (''header_name'', VString (HTTPS.HeaderName hl)),
      (''header_value'', VString (HTTPS.HeaderValue hl)),
      (''method'', VString (HTTPS.Method hl)),
      (''json_format'', VString (HTTPS.JSONFormat hl)),
      (''placement'', VString (HTTPS.Placement hl)),
      (''tls_ca_cert'', VString (HTTPS.TLSCACert hl)),
      (''tls_client_cert'', VString (HTTPS.TLSClientCert hl)),
      (''tls_client_key'', VString (HTTPS.TLSClientKey hl)),
      (''tls_hostname'', VString (HTTPS.TLSHostname hl)),
      (''message_type'', VString (HTTPS.MessageType hl)),
      (''format_version'', VUint (HTTPS.FormatVersion hl))])"

definition flattenHTTPS :: "HTTPS list \<Rightarrow> cfg list" where
  "flattenHTTPS httpsList = map flatten_one httpsList"

subsection \<open>buildCreateHTTPS and buildDeleteHTTPS\<close>

definition buildCreateHTTPS :: "cfg \<Rightarrow> string \<Rightarrow> go_int \<Rightarrow> panic + CreateHTTPSInput" where
  "buildCreateHTTPS df serviceID serviceVersion =
     bind (assert_string df ''name'') (\<lambda>name.
     bind (assert_string df ''url'') (\<lambda>url.
     bind (assert_int df ''request_max_entries'') (\<lambda>request_max_entries.
     bind (assert_int df ''request_max_bytes'') (\<lambda>request_max_bytes.
     bind (assert_string df ''content_type'') (\<lambda>content_type.
     bind (assert_string df ''header_name'') (\<lambda>header_name.
     bind (assert_string df ''header_value'') (\<lambda>header_value.
     bind (assert_string df ''method'') (\<lambda>method.
     bind (assert_string df ''json_format'') (\<lambda>json_format.
     bind (assert_string df ''tls_ca_cert'') (\<lambda>tls_ca_cert.
     bind (assert_string df ''tls_client_cert'') (\<lambda>tls_client_cert.
     bind (assert_string df ''tls_client_key'') (\<lambda>tls_client_key.
     bind (assert_string df ''tls_hostname'') (\<lambda>tls_hostname.
     bind (assert_string df ''format'') (\<lambda>format.
     bind (assert_int df ''format_version'') (\<lambda>format_version.
     bind (assert_string df ''message_type'') (\<lambda>message_type.
     bind (assert_string df ''placement'') (\<lambda>placement.
     bind (assert_string df ''response_condition'') (\<lambda>response_condition.
     Inr \<lparr>CreateHTTPSInput.Service = serviceID,
          Version = serviceVersion,
          Name = name,
          URL = url,
          RequestMaxEntries = to_uint request_max_entries,
          RequestMaxBytes = to_uint request_max_bytes,
          ContentType = content_type,
          HeaderName = header_name,
          HeaderValue = header_value,
          Method = method,
          JSONFormat = json_format,
          TLSCACert = tls_ca_cert,
          TLSClientCert = tls_client_cert,
          TLSClientKey = tls_client_key,
          TLSHostname = tls_hostname,
          Format = format,
          FormatVersion = to_uint format_version,
          MessageType = message_type,
          Placement = placement,
          ResponseCondition = response_condition\<rparr>))))))))))))))))))"

definition buildDeleteHTTPS :: "cfg \<Rightarrow> string \<Rightarrow> go_int \<Rightarrow> panic + DeleteHTTPSInput" where
  "buildDeleteHTTPS df serviceID serviceVersion =
     bind (assert_string df ''name'') (\<lambda>name.
     Inr \<lparr>DeleteHTTPSInput.Service = serviceID, Version = serviceVersion, Name = name\<rparr>)"

subsection \<open>The configuration sets and the resource data\<close>

text \<open>
  Modelled from the spec: \<open>schema.Set\<close> with its methods \<open>Difference\<close> and \<open>List\<close> is
  not in the source. The spec describes a ConfigSet as "an unordered collection" of
  entries that are "compared by structural equality per entry", and the difference as
  \<open>old - new\<close> "by whole-entry identity/equality". A set is represented by the list of
  its entries in the order \<open>List\<close> returns them; \<open>new(schema.Set)\<close> is the empty set;
  \<open>Difference\<close> keeps the entries of the receiver that are not equal to any entry of
  the argument.
\<close>

type_synonym schema_Set = "cfg list"

definition new_Set :: schema_Set where
  "new_Set = []"

definition Difference :: "schema_Set \<Rightarrow> schema_Set \<Rightarrow> schema_Set" where
  "Difference s other = filter (\<lambda>e. e \<notin> set other) s"

definition Set_List :: "schema_Set \<Rightarrow> cfg list" where
  "Set_List s = s"

text \<open>
  Of the \<open>*schema.ResourceData\<close>, \<open>processHTTPS\<close> reads \<open>d.Id()\<close> and
  \<open>d.GetChange("httpslogging")\<close>, a pair of interface values, each of which may be
  nil (\<open>None\<close>).
\<close>

record ResourceData =
  Id :: string
  GetChange_httpslogging :: "schema_Set option \<times> schema_Set option"

subsection \<open>The logging API and its two wrappers\<close>

text \<open>
  \<open>conn.DeleteHTTPS\<close> and \<open>conn.CreateHTTPS\<close> are calls to the remote service and are
  not in the source. They are parameters of the model: each takes its input and the
  state \<open>'st\<close> of the remote service, and returns its result and the new state.
\<close>

record 'st Conn =
  DeleteHTTPS :: "DeleteHTTPSInput \<Rightarrow> 'st \<Rightarrow> error option \<times> 'st"
  CreateHTTPS :: "CreateHTTPSInput \<Rightarrow> 'st \<Rightarrow> (error + HTTPS) \<times> 'st"

definition createHTTPS :: "'st Conn \<Rightarrow> CreateHTTPSInput \<Rightarrow> 'st \<Rightarrow> error option \<times> 'st" where
  "createHTTPS conn i st =
     (case CreateHTTPS conn i st of
        (Inl err, st') \<Rightarrow> (Some err, st')
      | (Inr _, st') \<Rightarrow> (None, st'))"

definition deleteHTTPS :: "'st Conn \<Rightarrow> DeleteHTTPSInput \<Rightarrow> 'st \<Rightarrow> error option \<times> 'st" where
  "deleteHTTPS conn i st =
     (case DeleteHTTPS conn i st of
        (Some (HTTPError StatusCode), st') \<Rightarrow>
          if StatusCode \<noteq> 404 then (Some (HTTPError StatusCode), st') else (None, st')
      | (Some err, st') \<Rightarrow> (Some err, st')
      | (None, st') \<Rightarrow> (None, st'))"

subsection \<open>processHTTPS\<close>

text \<open>
  The calls to the remote service are logged in the order they are made. The debug
  output of \<open>log.Printf\<close> is not modelled.
\<close>

datatype api_call =
    DeleteCall DeleteHTTPSInput
  | CreateCall CreateHTTPSInput

text \<open>The two local slices of \<open>processHTTPS\<close>, with a nil set replaced by the empty set.\<close>

definition ohs :: "ResourceData \<Rightarrow> schema_Set" where
  "ohs d = (case fst (GetChange_httpslogging d) of None \<Rightarrow> new_Set | Some oh \<Rightarrow> oh)"

definition nhs :: "ResourceData \<Rightarrow> schema_Set" where
  "nhs d = (case snd (GetChange_httpslogging d) of None \<Rightarrow> new_Set | Some nh \<Rightarrow> nh)"

definition removeHTTPSLogging :: "ResourceData \<Rightarrow> cfg list" where
  "removeHTTPSLogging d = Set_List (Difference (ohs d) (nhs d))"

definition addHTTPSLogging :: "ResourceData \<Rightarrow> cfg list" where
  "addHTTPSLogging d = Set_List (Difference (nhs d) (ohs d))"

text \<open>
  The two \<open>for ... range\<close> loops. Each returns the outcome (a panic, the error returned
  early, or \<open>None\<close> when the loop ran to its end), the state of the remote service and
  the calls made.
\<close>

fun delete_loop ::
  "'st Conn \<Rightarrow> string \<Rightarrow> go_int \<Rightarrow> cfg list \<Rightarrow> 'st \<Rightarrow> (panic + error option) \<times> 'st \<times> api_call list" where
  "delete_loop conn serviceID latestVersion [] st = (Inr None, st, [])"
| "delete_loop conn serviceID latestVersion (oRaw # rest) st =
     (case buildDeleteHTTPS oRaw serviceID latestVersion of
        Inl p \<Rightarrow> (Inl p, st, [])
      | Inr opts \<Rightarrow>
          (case deleteHTTPS conn opts st of
             (Some err, st') \<Rightarrow> (Inr (Some err), st', [DeleteCall opts])
           | (None, st') \<Rightarrow>
               (case delete_loop conn serviceID latestVersion rest st' of
                  (r, st'', calls) \<Rightarrow> (r, st'', DeleteCall opts # calls))))"

fun create_loop ::
  "'st Conn \<Rightarrow> string \<Rightarrow> go_int \<Rightarrow> cfg list \<Rightarrow> 'st \<Rightarrow> (panic + error option) \<times> 'st \<times> api_call list" where
  "create_loop conn serviceID latestVersion [] st = (Inr None, st, [])"
| "create_loop conn serviceID latestVersion (nRaw # rest) st =
     (case buildCreateHTTPS nRaw serviceID latestVersion of
        Inl p \<Rightarrow> (Inl p, st, [])
      | Inr opts \<Rightarrow>
          (case createHTTPS conn opts st of
             (Some err, st') \<Rightarrow> (Inr (Some err), st', [CreateCall opts])
           | (None, st') \<Rightarrow>
               (case create_loop conn serviceID latestVersion rest st' of
                  (r, st'', calls) \<Rightarrow> (r, st'', CreateCall opts # calls))))"

definition processHTTPS ::
  "ResourceData \<Rightarrow> 'st Conn \<Rightarrow> go_int \<Rightarrow> 'st \<Rightarrow> (panic + error option) \<times> 'st \<times> api_call list" where
  "processHTTPS d conn latestVersion st =
     (let serviceID = Id d in
      case delete_loop conn serviceID latestVersion (removeHTTPSLogging d) st of
        (Inr None, st', calls) \<Rightarrow>
          (case create_loop conn serviceID latestVersion (addHTTPSLogging d) st' of
             (r, st'', calls') \<Rightarrow> (r, st'', calls @ calls'))
      | (r, st', calls) \<Rightarrow> (r, st', calls))"

subsection \<open>Notions used to state the properties\<close>

text \<open>
  The keys \<open>buildCreateHTTPS\<close> asserts to be strings and the keys it asserts to be
  ints, and the precondition under which all its type assertions succeed.
\<close>

definition string_fields :: "string list" where
  "string_fields =
     [''name'', ''url'', ''content_type'', ''header_name'', ''header_value'', ''method'',
      ''json_format'', ''tls_ca_cert'', ''tls_client_cert'', ''tls_client_key'',
      ''tls_hostname'', ''format'', ''message_type'', ''placement'', ''response_condition'']"

definition int_fields :: "string list" where
  "int_fields = [''request_max_entries'', ''request_max_bytes'', ''format_version'']"

fun is_string :: "val option \<Rightarrow> bool" where
  "is_string (Some (VString s)) = True"
| "is_string _ = False"

fun is_int :: "val option \<Rightarrow> bool" where
  "is_int (Some (VInt n)) = True"
| "is_int _ = False"

definition well_typed :: "cfg \<Rightarrow> bool" where
  "well_typed df \<longleftrightarrow>
     list_all (\<lambda>k. is_string (df k)) string_fields \<and> list_all (\<lambda>k. is_int (df k)) int_fields"

text \<open>
  The inputs \<open>processHTTPS\<close> builds for the entries to remove and to add, in the order
  of the two slices, and the calls it plans with them: all deletes, then all creates.
\<close>

definition delete_inputs :: "ResourceData \<Rightarrow> go_int \<Rightarrow> (panic + DeleteHTTPSInput) list" where
  "delete_inputs d latestVersion =
     map (\<lambda>e. buildDeleteHTTPS e (Id d) latestVersion) (removeHTTPSLogging d)"

definition create_inputs :: "ResourceData \<Rightarrow> go_int \<Rightarrow> (panic + CreateHTTPSInput) list" where
  "create_inputs d latestVersion =
     map (\<lambda>e. buildCreateHTTPS e (Id d) latestVersion) (addHTTPSLogging d)"

definition planned :: "ResourceData \<Rightarrow> go_int \<Rightarrow> (panic + api_call) list" where
  "planned d latestVersion =
     map (map_sum id DeleteCall) (delete_inputs d latestVersion) @
     map (map_sum id CreateCall) (create_inputs d latestVersion)"

text \<open>
  What a logged call returned to \<open>processHTTPS\<close>, and what a sequence of calls does when
  replayed from a state of the remote service: the state it ends in, and the error or
  \<open>None\<close> of each call.
\<close>

definition exec :: "'st Conn \<Rightarrow> api_call \<Rightarrow> 'st \<Rightarrow> error option \<times> 'st" where
  "exec conn c st =
     (case c of DeleteCall i \<Rightarrow> deleteHTTPS conn i st | CreateCall i \<Rightarrow> createHTTPS conn i st)"

fun run :: "'st Conn \<Rightarrow> api_call list \<Rightarrow> 'st \<Rightarrow> 'st" where
  "run conn [] st = st"
| "run conn (c # cs) st = run conn cs (snd (exec conn c st))"

fun results :: "'st Conn \<Rightarrow> api_call list \<Rightarrow> 'st \<Rightarrow> error option list" where
  "results conn [] st = []"
| "results conn (c # cs) st = fst (exec conn c st) # results conn cs (snd (exec conn c st))"

text \<open>
  The reconciliation as the spec words it: go through the planned calls in order; a
  panic while building an input stops everything; a call that returns an error is the
  last call made and its error is the result; otherwise go on with the state the call
  left.
\<close>

fun replay ::
  "'st Conn \<Rightarrow> (panic + api_call) list \<Rightarrow> 'st \<Rightarrow> (panic + error option) \<times> 'st \<times> api_call list" where
  "replay conn [] st = (Inr None, st, [])"
| "replay conn (Inl p # rest) st = (Inl p, st, [])"
| "replay conn (Inr c # rest) st =
     (case exec conn c st of
        (Some err, st') \<Rightarrow> (Inr (Some err), st', [c])
      | (None, st') \<Rightarrow>
          (case replay conn rest st' of (r, st'', calls) \<Rightarrow> (r, st'', c # calls)))"

subsection \<open>Example data\<close>

text \<open>A purge client whose collaborators always succeed.\<close>

definition demo_client :: Client where
  "demo_client =
     \<lparr>Post = (\<lambda>path ro. Inr ''{}''),
      RawRequest = (\<lambda>verb path ro. Inr \<lparr>Request.Method = verb, Path = path, Header = Map.empty\<rparr>),
      HTTPClient_Do = (\<lambda>req. Inr ''{}''),
      checkResp = (\<lambda>r. r),
      decodeJSON = (\<lambda>body. Inr \<lparr>Status = ''ok'', ID = ''1''\<rparr>)\<rparr>"

text \<open>
  A configuration entry as the schema produces it for a block that sets only \<open>name\<close> and
  \<open>url\<close>: every key is present, the optional ones with their defaults or zero values.
\<close>

definition endpoint :: "string \<Rightarrow> string \<Rightarrow> cfg" where
  "endpoint name url = map_of
     [(''name'', VString name),
      (''url'', VString url),
      (''request_max_entries'', VInt 0),
      (''request_max_bytes'', VInt 0),
      (''content_type'', VString ''''),
      (''header_name'', VString ''''),
      (''header_value'', VString ''''),
      (''method'', VString ''POST''),
      (''json_format'', VString ''0''),
      (''tls_ca_cert'', VString ''''),
      (''tls_client_cert'', VString ''''),
      (''tls_client_key'', VString ''''),
      (''tls_hostname'', VString ''''),
      (''format'', VString ''''),
      (''format_version'', VInt 2),
      (''message_type'', VString ''blank''),
      (''placement'', VString ''''),
      (''response_condition'', VString '''')]"

text \<open>A server-side record with an empty content type and zero batching limits.\<close>

definition demo_https :: "string \<Rightarrow> string \<Rightarrow> HTTPS" where
  "demo_https name url =
     \<lparr>HTTPS.Name = name, ResponseCondition = '''', Format = ''%h'', URL = url,
      RequestMaxEntries = 0, RequestMaxBytes = 0, ContentType = '''', HeaderName = '''',
      HeaderValue = '''', Method = ''POST'', JSONFormat = ''0'', Placement = '''',
      TLSCACert = '''', TLSClientCert = '''', TLSClientKey = '''', TLSHostname = '''',
      MessageType = ''blank'', FormatVersion = 2\<rparr>"

text \<open>
  A remote service that holds the names of its endpoints: deleting a missing name
  answers 404, creating an existing name answers 409.
\<close>

definition demo_conn :: "string list Conn" where
  "demo_conn =
     \<lparr>DeleteHTTPS = (\<lambda>i st.
        if DeleteHTTPSInput.Name i \<in> set st
        then (None, removeAll (DeleteHTTPSInput.Name i) st)
        else (Some (HTTPError 404), st)),
      CreateHTTPS = (\<lambda>i st.
        if CreateHTTPSInput.Name i \<in> set st
        then (Inl (HTTPError 409), st)
        else (Inr (demo_https (CreateHTTPSInput.Name i) (CreateHTTPSInput.URL i)),
              CreateHTTPSInput.Name i # st))\<rparr>"

definition demo_change :: "cfg list \<Rightarrow> cfg list \<Rightarrow> ResourceData" where
  "demo_change old new = \<lparr>Id = ''svc'', GetChange_httpslogging = (Some old, Some new)\<rparr>"

text \<open>A remote service that is down: every call fails and nothing changes.\<close>

definition broken_conn :: "string list Conn" where
  "broken_conn =
     \<lparr>DeleteHTTPS = (\<lambda>i st. (Some (HTTPError 500), st)),
      CreateHTTPS = (\<lambda>i st. (Inl (OtherError ''connection refused''), st))\<rparr>"

section \<open>Properties of the purge client\<close>

text \<open>
  Claim C6. An empty required field makes the purge function return its missing-field
  error without any network call: an empty URL for \<open>Purge\<close>, an empty Service for
  \<open>PurgeKey\<close> and \<open>PurgeAll\<close>, and an empty Key for \<open>PurgeKey\<close> (the Service is
  checked first, so when both are empty the error is the one of the Service).
\<close>

theorem purge_missing_required_field:
  "(PurgeInput.URL i = '''' \<longrightarrow> Purge c i = (Inr (Inl ErrMissingURL), [])) \<and>
   (PurgeKeyInput.Service k = '''' \<longrightarrow> PurgeKey c k = (Inr (Inl ErrMissingService), [])) \<and>
   (PurgeKeyInput.Service k \<noteq> '''' \<and> PurgeKeyInput.Key k = '''' \<longrightarrow>
      PurgeKey c k = (Inr (Inl ErrMissingKey), [])) \<and>
   (PurgeAllInput.Service a = '''' \<longrightarrow> PurgeAll c a = (Inr (Inl ErrMissingService), []))"
  by (simp add: Purge_def PurgeKey_def PurgeAll_def)

theorem purge_missing_required_field_witness:
  "Purge demo_client \<lparr>PurgeInput.URL = '''', Soft = True\<rparr> = (Inr (Inl ErrMissingURL), []) \<and>
   PurgeKey demo_client \<lparr>PurgeKeyInput.Service = '''', Key = ''k'', Soft = False\<rparr>
     = (Inr (Inl ErrMissingService), []) \<and>
   PurgeKey demo_client \<lparr>PurgeKeyInput.Service = ''svc'', Key = '''', Soft = False\<rparr>
     = (Inr (Inl ErrMissingKey), []) \<and>
   PurgeAll demo_client \<lparr>PurgeAllInput.Service = '''', Soft = False\<rparr>
     = (Inr (Inl ErrMissingService), [])"
  using purge_missing_required_field
    [of "\<lparr>PurgeInput.URL = '''', Soft = True\<rparr>" demo_client
        "\<lparr>PurgeKeyInput.Service = '''', Key = ''k'', Soft = False\<rparr>"
        "\<lparr>PurgeAllInput.Service = '''', Soft = False\<rparr>"]
    purge_missing_required_field
    [of "\<lparr>PurgeInput.URL = '''', Soft = True\<rparr>" demo_client
        "\<lparr>PurgeKeyInput.Service = ''svc'', Key = '''', Soft = False\<rparr>"
        "\<lparr>PurgeAllInput.Service = '''', Soft = False\<rparr>"]
  by simp

text \<open>
  The soft-purge header. \<open>PurgeKey\<close> and \<open>PurgeAll\<close> set the header on the request that
  \<open>RawRequest\<close> built, and send that request; without the flag they send the request
  unchanged.
\<close>

lemma PurgeKey_soft_header:
  "PurgeKeyInput.Service i \<noteq> '''' \<Longrightarrow> PurgeKeyInput.Key i \<noteq> '''' \<Longrightarrow>
   RawRequest c ''POST''
      (''/service/'' @ PurgeKeyInput.Service i @ ''/purge/'' @ PurgeKeyInput.Key i)
      (Some \<lparr>Parallel = True, Headers = None\<rparr>) = Inr req \<Longrightarrow>
   snd (PurgeKey c i) =
     [DoCall (if PurgeKeyInput.Soft i
              then req\<lparr>Header := (Header req)(''Fastly-Soft-Purge'' \<mapsto> ''1'')\<rparr> else req)]"
  by (simp add: PurgeKey_def new_RequestOptions_def Header_Set_def Let_def)

lemma PurgeAll_soft_header:
  "PurgeAllInput.Service i \<noteq> '''' \<Longrightarrow>
   RawRequest c ''POST'' (''/service/'' @ PurgeAllInput.Service i @ ''/purge_all'') None = Inr req \<Longrightarrow>
   snd (PurgeAll c i) =
     [DoCall (if PurgeAllInput.Soft i
              then req\<lparr>Header := (Header req)(''Fastly-Soft-Purge'' \<mapsto> ''1'')\<rparr> else req)]"
  by (simp add: PurgeAll_def Header_Set_def Let_def)

text \<open>Without the flag, \<open>Purge\<close> posts with options that carry no header map at all.\<close>

lemma Purge_not_soft:
  "PurgeInput.URL i \<noteq> '''' \<Longrightarrow> \<not> PurgeInput.Soft i \<Longrightarrow>
   snd (Purge c i) =
     [PostCall (''purge/'' @ PurgeInput.URL i) \<lparr>Parallel = True, Headers = None\<rparr>]"
  by (simp add: Purge_def new_RequestOptions_def Let_def)

text \<open>
  With the flag, \<open>Purge\<close> assigns into the \<open>Headers\<close> map of freshly allocated options,
  which is nil: it panics before \<open>c.Post\<close> is reached, whatever the client.
\<close>

lemma Purge_soft_never_posts:
  "PurgeInput.URL i \<noteq> '''' \<Longrightarrow> PurgeInput.Soft i \<Longrightarrow> Purge c i = (Inl AssignNilMap, [])"
  by (simp add: Purge_def new_RequestOptions_def map_assign_def)

text \<open>
  Claim C1, at the input \<open>URL = "example.com/a"\<close>, \<open>Soft = true\<close>, which passes the
  required-field check: the claim asks for a request carrying \<open>Fastly-Soft-Purge: 1\<close>;
  \<open>Purge\<close> panics and issues no request.
\<close>

theorem Purge_soft_panics:
  "Purge c \<lparr>PurgeInput.URL = ''example.com/a'', Soft = True\<rparr> = (Inl AssignNilMap, [])"
  by (simp add: Purge_def new_RequestOptions_def map_assign_def)

section \<open>Properties of the HTTPS logging block\<close>

subsection \<open>Building the API inputs\<close>

lemma bind_Inr_iff: "bind m f = Inr y \<longleftrightarrow> (\<exists>x. m = Inr x \<and> f x = Inr y)"
  by (cases m) (simp_all add: bind_def)

lemma assert_string_Inr_iff: "assert_string df k = Inr s \<longleftrightarrow> df k = Some (VString s)"
  by (simp add: assert_string_def split: option.splits val.splits)

lemma assert_int_Inr_iff: "assert_int df k = Inr n \<longleftrightarrow> df k = Some (VInt n)"
  by (simp add: assert_int_def split: option.splits val.splits)

lemma is_string_iff: "is_string x \<longleftrightarrow> (\<exists>s. x = Some (VString s))"
  by (cases x rule: is_string.cases) simp_all

lemma is_int_iff: "is_int x \<longleftrightarrow> (\<exists>n. x = Some (VInt n))"
  by (cases x rule: is_int.cases) simp_all

lemma to_uint_bits: "to_uint x = x"
  by (simp add: to_uint_def)

lemma to_uint_value: "uint (to_uint x) = sint x mod 2 ^ 64"
  using uint_word_of_int [of "sint x", where 'a = 64] by (simp add: to_uint_def)

lemma buildCreateHTTPS_Inr_iff:
  "buildCreateHTTPS df sid v = Inr opts \<longleftrightarrow>
     (\<exists>name url rme rmb ct hn hv m jf ca cc ck th f fv mt pl rc.
        df ''name'' = Some (VString name) \<and> df ''url'' = Some (VString url) \<and>
        df ''request_max_entries'' = Some (VInt rme) \<and>
        df ''request_max_bytes'' = Some (VInt rmb) \<and>
        df ''content_type'' = Some (VString ct) \<and>
        df ''header_name'' = Some (VString hn) \<and>
        df ''header_value'' = Some (VString hv) \<and>
        df ''method'' = Some (VString m) \<and>
        df ''json_format'' = Some (VString jf) \<and>
        df ''tls_ca_cert'' = Some (VString ca) \<and>
        df ''tls_client_cert'' = Some (VString cc) \<and>
        df ''tls_client_key'' = Some (VString ck) \<and>
        df ''tls_hostname'' = Some (VString th) \<and>
        df ''format'' = Some (VString f) \<and>
        df ''format_version'' = Some (VInt fv) \<and>
        df ''message_type'' = Some (VString mt) \<and>
        df ''placement'' = Some (VString pl) \<and>
        df ''response_condition'' = Some (VString rc) \<and>
        \<lparr>CreateHTTPSInput.Service = sid, Version = v, Name = name, URL = url,
          RequestMaxEntries = to_uint rme, RequestMaxBytes = to_uint rmb,
          ContentType = ct, HeaderName = hn, HeaderValue = hv, Method = m, JSONFormat = jf,
          TLSCACert = ca, TLSClientCert = cc, TLSClientKey = ck, TLSHostname = th,
          Format = f, FormatVersion = to_uint fv, MessageType = mt, Placement = pl,
          ResponseCondition = rc\<rparr> = opts)"
  unfolding buildCreateHTTPS_def bind_Inr_iff assert_string_Inr_iff assert_int_Inr_iff
  by (simp only: sum.inject ex_simps)

lemma buildDeleteHTTPS_Inr_iff:
  "buildDeleteHTTPS df sid v = Inr opts \<longleftrightarrow>
     (\<exists>name. df ''name'' = Some (VString name) \<and>
        opts = \<lparr>DeleteHTTPSInput.Service = sid, Version = v, Name = name\<rparr>)"
  unfolding buildDeleteHTTPS_def bind_Inr_iff assert_string_Inr_iff
  by auto

lemma well_typed_iff:
  "well_typed df \<longleftrightarrow>
     (\<exists>name url rme rmb ct hn hv m jf ca cc ck th f fv mt pl rc.
        df ''name'' = Some (VString name) \<and> df ''url'' = Some (VString url) \<and>
        df ''request_max_entries'' = Some (VInt rme) \<and>
        df ''request_max_bytes'' = Some (VInt rmb) \<and>
        df ''content_type'' = Some (VString ct) \<and>
        df ''header_name'' = Some (VString hn) \<and>
        df ''header_value'' = Some (VString hv) \<and>
        df ''method'' = Some (VString m) \<and>
        df ''json_format'' = Some (VString jf) \<and>
        df ''tls_ca_cert'' = Some (VString ca) \<and>
        df ''tls_client_cert'' = Some (VString cc) \<and>
        df ''tls_client_key'' = Some (VString ck) \<and>
        df ''tls_hostname'' = Some (VString th) \<and>
        df ''format'' = Some (VString f) \<and>
        df ''format_version'' = Some (VInt fv) \<and>
        df ''message_type'' = Some (VString mt) \<and>
        df ''placement'' = Some (VString pl) \<and>
        df ''response_condition'' = Some (VString rc))"
  unfolding well_typed_def string_fields_def int_fields_def is_string_iff is_int_iff
  by (simp only: list.pred_inject ex_simps simp_thms) blast

lemma sum_cases_Inl_Inr: "(\<exists>p. x = Inl p) \<longleftrightarrow> \<not> (\<exists>y. x = Inr y)"
  by (cases x) simp_all

text \<open>
  Claim C9. \<open>buildCreateHTTPS\<close> returns an input exactly when the configuration map
  holds every expected key with the expected dynamic type (a string for the string
  fields, an int for the three numeric fields); on every other map, one with a missing
  key or with a value of another type, it panics. \<open>buildDeleteHTTPS\<close> returns an input
  exactly when the key \<open>name\<close> holds a string, and panics otherwise.
\<close>

theorem build_inputs_defined_iff_well_typed:
  "((\<exists>opts. buildCreateHTTPS df serviceID serviceVersion = Inr opts) \<longleftrightarrow> well_typed df) \<and>
   ((\<exists>p. buildCreateHTTPS df serviceID serviceVersion = Inl p) \<longleftrightarrow> \<not> well_typed df) \<and>
   ((\<exists>opts. buildDeleteHTTPS df serviceID serviceVersion = Inr opts) \<longleftrightarrow> is_string (df ''name'')) \<and>
   ((\<exists>p. buildDeleteHTTPS df serviceID serviceVersion = Inl p) \<longleftrightarrow> \<not> is_string (df ''name''))"
proof -
  have c: "(\<exists>opts. buildCreateHTTPS df serviceID serviceVersion = Inr opts) \<longleftrightarrow> well_typed df"
    unfolding buildCreateHTTPS_Inr_iff well_typed_iff by blast
  have d: "(\<exists>opts. buildDeleteHTTPS df serviceID serviceVersion = Inr opts) \<longleftrightarrow> is_string (df ''name'')"
    unfolding buildDeleteHTTPS_Inr_iff is_string_iff by blast
  show ?thesis
    unfolding sum_cases_Inl_Inr using c d by simp
qed

text \<open>
  Claim C8. When \<open>buildCreateHTTPS\<close> returns an input, the service and version are
  the arguments, every string field of the input is the string stored in the map under
  its key, and each numeric field is the conversion to \<open>uint\<close> of the int stored under
  its key: the same bits, so that the unsigned value is the signed one modulo \<open>2^64\<close>.
\<close>

theorem buildCreateHTTPS_passes_fields:
  assumes "buildCreateHTTPS df serviceID serviceVersion = Inr opts"
  shows "CreateHTTPSInput.Service opts = serviceID \<and>
         CreateHTTPSInput.Version opts = serviceVersion \<and>
         df ''name'' = Some (VString (CreateHTTPSInput.Name opts)) \<and>
         df ''url'' = Some (VString (CreateHTTPSInput.URL opts)) \<and>
         df ''content_type'' = Some (VString (CreateHTTPSInput.ContentType opts)) \<and>
         df ''header_name'' = Some (VString (CreateHTTPSInput.HeaderName opts)) \<and>
         df ''header_value'' = Some (VString (CreateHTTPSInput.HeaderValue opts)) \<and>
         df ''method'' = Some (VString (CreateHTTPSInput.Method opts)) \<and>
         df ''json_format'' = Some (VString (CreateHTTPSInput.JSONFormat opts)) \<and>
         df ''tls_ca_cert'' = Some (VString (CreateHTTPSInput.TLSCACert opts)) \<and>
         df ''tls_client_cert'' = Some (VString (CreateHTTPSInput.TLSClientCert opts)) \<and>
         df ''tls_client_key'' = Some (VString (CreateHTTPSInput.TLSClientKey opts)) \<and>
         df ''tls_hostname'' = Some (VString (CreateHTTPSInput.TLSHostname opts)) \<and>
         df ''format'' = Some (VString (CreateHTTPSInput.Format opts)) \<and>
         df ''message_type'' = Some (VString (CreateHTTPSInput.MessageType opts)) \<and>
         df ''placement'' = Some (VString (CreateHTTPSInput.Placement opts)) \<and>
         df ''response_condition'' = Some (VString (CreateHTTPSInput.ResponseCondition opts)) \<and>
         (\<exists>n. df ''request_max_entries'' = Some (VInt n) \<and>
              CreateHTTPSInput.RequestMaxEntries opts = to_uint n \<and>
              uint (CreateHTTPSInput.RequestMaxEntries opts) = sint n mod 2 ^ 64) \<and>
         (\<exists>n. df ''request_max_bytes'' = Some (VInt n) \<and>
              CreateHTTPSInput.RequestMaxBytes opts = to_uint n \<and>
              uint (CreateHTTPSInput.RequestMaxBytes opts) = sint n mod 2 ^ 64) \<and>
         (\<exists>n. df ''format_version'' = Some (VInt n) \<and>
              CreateHTTPSInput.FormatVersion opts = to_uint n \<and>
              uint (CreateHTTPSInput.FormatVersion opts) = sint n mod 2 ^ 64)"
proof -
  from assms obtain name url rme rmb ct hn hv m jf ca cc ck th f fv mt pl rc where
    k: "df ''name'' = Some (VString name)" "df ''url'' = Some (VString url)"
       "df ''request_max_entries'' = Some (VInt rme)"
       "df ''request_max_bytes'' = Some (VInt rmb)"
       "df ''content_type'' = Some (VString ct)"
       "df ''header_name'' = Some (VString hn)"
       "df ''header_value'' = Some (VString hv)"
       "df ''method'' = Some (VString m)"
       "df ''json_format'' = Some (VString jf)"
       "df ''tls_ca_cert'' = Some (VString ca)"
       "df ''tls_client_cert'' = Some (VString cc)"
       "df ''tls_client_key'' = Some (VString ck)"
       "df ''tls_hostname'' = Some (VString th)"
       "df ''format'' = Some (VString f)"
       "df ''format_version'' = Some (VInt fv)"
       "df ''message_type'' = Some (VString mt)"
       "df ''placement'' = Some (VString pl)"
       "df ''response_condition'' = Some (VString rc)"
    and o: "opts = \<lparr>CreateHTTPSInput.Service = serviceID, Version = serviceVersion,
          Name = name, URL = url,
          RequestMaxEntries = to_uint rme, RequestMaxBytes = to_uint rmb,
          ContentType = ct, HeaderName = hn, HeaderValue = hv, Method = m, JSONFormat = jf,
          TLSCACert = ca, TLSClientCert = cc, TLSClientKey = ck, TLSHostname = th,
          Format = f, FormatVersion = to_uint fv, MessageType = mt, Placement = pl,
          ResponseCondition = rc\<rparr>"
    unfolding buildCreateHTTPS_Inr_iff by blast
  show ?thesis
    unfolding o by (simp add: k to_uint_value)
qed

lemma well_typed_endpoint: "well_typed (endpoint name url)"
  by (simp add: well_typed_def string_fields_def int_fields_def endpoint_def)

theorem build_inputs_defined_iff_well_typed_witness:
  "(\<exists>opts. buildCreateHTTPS (endpoint ''a'' ''https://a.example'') ''svc'' 1 = Inr opts) \<and>
   (\<exists>p. buildCreateHTTPS ((endpoint ''a'' ''https://a.example'')(''format_version'' \<mapsto> VString ''2'')) ''svc'' 1 = Inl p) \<and>
   (\<exists>opts. buildDeleteHTTPS (endpoint ''a'' ''https://a.example'') ''svc'' 1 = Inr opts) \<and>
   (\<exists>p. buildDeleteHTTPS Map.empty ''svc'' 1 = Inl p)"
  using build_inputs_defined_iff_well_typed [of "endpoint ''a'' ''https://a.example''" "''svc''" 1]
    build_inputs_defined_iff_well_typed
      [of "(endpoint ''a'' ''https://a.example'')(''format_version'' \<mapsto> VString ''2'')" "''svc''" 1]
    build_inputs_defined_iff_well_typed [of Map.empty "''svc''" 1]
  by (simp add: well_typed_def string_fields_def int_fields_def endpoint_def)

theorem buildCreateHTTPS_passes_fields_witness:
  "buildCreateHTTPS ((endpoint ''a'' ''https://a.example'')(''request_max_entries'' \<mapsto> VInt (- 1)))
       ''svc'' 7 =
     Inr \<lparr>CreateHTTPSInput.Service = ''svc'', Version = 7, Name = ''a'',
          URL = ''https://a.example'', RequestMaxEntries = - 1, RequestMaxBytes = 0,
          ContentType = '''', HeaderName = '''', HeaderValue = '''', Method = ''POST'',
          JSONFormat = ''0'', TLSCACert = '''', TLSClientCert = '''', TLSClientKey = '''',
          TLSHostname = '''', Format = '''', FormatVersion = 2, MessageType = ''blank'',
          Placement = '''', ResponseCondition = ''''\<rparr> \<and>
   uint (- 1 :: go_uint) = sint (- 1 :: go_int) mod 2 ^ 64 \<and>
   uint (- 1 :: go_uint) = 18446744073709551615"
proof -
  have h: "buildCreateHTTPS ((endpoint ''a'' ''https://a.example'')(''request_max_entries'' \<mapsto> VInt (- 1)))
       ''svc'' 7 =
     Inr \<lparr>CreateHTTPSInput.Service = ''svc'', Version = 7, Name = ''a'',
          URL = ''https://a.example'', RequestMaxEntries = - 1, RequestMaxBytes = 0,
          ContentType = '''', HeaderName = '''', HeaderValue = '''', Method = ''POST'',
          JSONFormat = ''0'', TLSCACert = '''', TLSClientCert = '''', TLSClientKey = '''',
          TLSHostname = '''', Format = '''', FormatVersion = 2, MessageType = ''blank'',
          Placement = '''', ResponseCondition = ''''\<rparr>"
    by (simp add: buildCreateHTTPS_def bind_def assert_string_def assert_int_def endpoint_def
        to_uint_def)
  from buildCreateHTTPS_passes_fields [OF h] h show ?thesis
    by simp
qed

subsection \<open>Flattening server-side records\<close>

lemma prune_apply:
  "prune nhl k = (case nhl k of None \<Rightarrow> None
                  | Some v \<Rightarrow> if v = VString '''' then None else Some v)"
  by (simp add: prune_def)

lemma flattenHTTPS_nth:
  "i < length httpsList \<Longrightarrow> flattenHTTPS httpsList ! i = flatten_one (httpsList ! i)"
  by (simp add: flattenHTTPS_def)

lemma flatten_one_identity_fields:
  "flatten_one hl ''name'' =
     (if HTTPS.Name hl = '''' then None else Some (VString (HTTPS.Name hl)))"
  "flatten_one hl ''url'' =
     (if HTTPS.URL hl = '''' then None else Some (VString (HTTPS.URL hl)))"
  by (simp_all add: flatten_one_def prune_apply)

lemma flatten_one_string_fields:
  "flatten_one hl ''content_type'' =
     (if HTTPS.ContentType hl = '''' then None else Some (VString (HTTPS.ContentType hl)))"
  "flatten_one hl ''response_condition'' =
     (if HTTPS.ResponseCondition hl = '''' then None
      else Some (VString (HTTPS.ResponseCondition hl)))"
  "flatten_one hl ''format'' =
     (if HTTPS.Format hl = '''' then None else Some (VString (HTTPS.Format hl)))"
  "flatten_one hl ''header_name'' =
     (if HTTPS.HeaderName hl = '''' then None else Some (VString (HTTPS.HeaderName hl)))"
  "flatten_one hl ''header_value'' =
     (if HTTPS.HeaderValue hl = '''' then None else Some (VString (HTTPS.HeaderValue hl)))"
  "flatten_one hl ''method'' =
     (if HTTPS.Method hl = '''' then None else Some (VString (HTTPS.Method hl)))"
  "flatten_one hl ''json_format'' =
     (if HTTPS.JSONFormat hl = '''' then None else Some (VString (HTTPS.JSONFormat hl)))"
  "flatten_one hl ''placement'' =
     (if HTTPS.Placement hl = '''' then None else Some (VString (HTTPS.Placement hl)))"
  "flatten_one hl ''tls_ca_cert'' =
     (if HTTPS.TLSCACert hl = '''' then None else Some (VString (HTTPS.TLSCACert hl)))"
  "flatten_one hl ''tls_client_cert'' =
     (if HTTPS.TLSClientCert hl = '''' then None else Some (VString (HTTPS.TLSClientCert hl)))"
  "flatten_one hl ''tls_client_key'' =
     (if HTTPS.TLSClientKey hl = '''' then None else Some (VString (HTTPS.TLSClientKey hl)))"
  "flatten_one hl ''tls_hostname'' =
     (if HTTPS.TLSHostname hl = '''' then None else Some (VString (HTTPS.TLSHostname hl)))"
  "flatten_one hl ''message_type'' =
     (if HTTPS.MessageType hl = '''' then None else Some (VString (HTTPS.MessageType hl)))"
  by (simp_all add: flatten_one_def prune_apply)

lemma flatten_one_numeric_fields:
  "flatten_one hl ''request_max_entries'' = Some (VUint (HTTPS.RequestMaxEntries hl))"
  "flatten_one hl ''request_max_bytes'' = Some (VUint (HTTPS.RequestMaxBytes hl))"
  "flatten_one hl ''format_version'' = Some (VUint (HTTPS.FormatVersion hl))"
  by (simp_all add: flatten_one_def prune_apply)

text \<open>
  Claim C2 as stated fails on the numeric fields: a record whose
  \<open>request_max_entries\<close> is zero is flattened into a map that still holds the key,
  with the value 0. The comparison \<open>v == ""\<close> is false for a \<open>uint\<close>.
\<close>

theorem flattenHTTPS_keeps_zero_number:
  "HTTPS.RequestMaxEntries (demo_https ''a'' ''https://a.example'') = 0 \<and>
   (flattenHTTPS [demo_https ''a'' ''https://a.example''] ! 0) ''request_max_entries''
     = Some (VUint 0)"
  by (simp add: flattenHTTPS_def flatten_one_numeric_fields) (simp add: demo_https_def)

text \<open>
  Claim C2, amended. Flattening omits each string field whose value is the empty string
  and keeps it with its value otherwise, in particular \<open>content_type\<close>, and also
  \<open>name\<close> and \<open>url\<close>; the three numeric fields are always kept with their values,
  zero included.
\<close>

theorem flattenHTTPS_prunes_empty_strings:
  assumes "i < length httpsList"
  shows "(HTTPS.ContentType (httpsList ! i) = '''' \<longrightarrow>
            (flattenHTTPS httpsList ! i) ''content_type'' = None) \<and>
         (\<forall>k v. (flattenHTTPS httpsList ! i) k = Some v \<longrightarrow> v \<noteq> VString '''') \<and>
         (flattenHTTPS httpsList ! i) ''content_type'' =
           (if HTTPS.ContentType (httpsList ! i) = '''' then None
            else Some (VString (HTTPS.ContentType (httpsList ! i)))) \<and>
         (flattenHTTPS httpsList ! i) ''response_condition'' =
           (if HTTPS.ResponseCondition (httpsList ! i) = '''' then None
            else Some (VString (HTTPS.ResponseCondition (httpsList ! i)))) \<and>
         (flattenHTTPS httpsList ! i) ''format'' =
           (if HTTPS.Format (httpsList ! i) = '''' then None
            else Some (VString (HTTPS.Format (httpsList ! i)))) \<and>
         (flattenHTTPS httpsList ! i) ''header_name'' =
           (if HTTPS.HeaderName (httpsList ! i) = '''' then None
            else Some (VString (HTTPS.HeaderName (httpsList ! i)))) \<and>
         (flattenHTTPS httpsList ! i) ''header_value'' =
           (if HTTPS.HeaderValue (httpsList ! i) = '''' then None
            else Some (VString (HTTPS.HeaderValue (httpsList ! i)))) \<and>
         (flattenHTTPS httpsList ! i) ''method'' =
           (if HTTPS.Method (httpsList ! i) = '''' then None
            else Some (VString (HTTPS.Method (httpsList ! i)))) \<and>
         (flattenHTTPS httpsList ! i) ''json_format'' =
           (if HTTPS.JSONFormat (httpsList ! i) = '''' then None
            else Some (VString (HTTPS.JSONFormat (httpsList ! i)))) \<and>
         (flattenHTTPS httpsList ! i) ''placement'' =
           (if HTTPS.Placement (httpsList ! i) = '''' then None
            else Some (VString (HTTPS.Placement (httpsList ! i)))) \<and>
         (flattenHTTPS httpsList ! i) ''tls_ca_cert'' =
           (if HTTPS.TLSCACert (httpsList ! i) = '''' then None
            else Some (VString (HTTPS.TLSCACert (httpsList ! i)))) \<and>
         (flattenHTTPS httpsList ! i) ''tls_client_cert'' =
           (if HTTPS.TLSClientCert (httpsList ! i) = '''' then None
            else Some (VString (HTTPS.TLSClientCert (httpsList ! i)))) \<and>
         (flattenHTTPS httpsList ! i) ''tls_client_key'' =
           (if HTTPS.TLSClientKey (httpsList ! i) = '''' then None
            else Some (VString (HTTPS.TLSClientKey (httpsList ! i)))) \<and>
         (flattenHTTPS httpsList ! i) ''tls_hostname'' =
           (if HTTPS.TLSHostname (httpsList ! i) = '''' then None
            else Some (VString (HTTPS.TLSHostname (httpsList ! i)))) \<and>
         (flattenHTTPS httpsList ! i) ''message_type'' =
           (if HTTPS.MessageType (httpsList ! i) = '''' then None
            else Some (VString (HTTPS.MessageType (httpsList ! i)))) \<and>
         (flattenHTTPS httpsList ! i) ''name'' =
           (if HTTPS.Name (httpsList ! i) = '''' then None
            else Some (VString (HTTPS.Name (httpsList ! i)))) \<and>
         (flattenHTTPS httpsList ! i) ''url'' =
           (if HTTPS.URL (httpsList ! i) = '''' then None
            else Some (VString (HTTPS.URL (httpsList ! i)))) \<and>
         (flattenHTTPS httpsList ! i) ''request_max_entries'' =
           Some (VUint (HTTPS.RequestMaxEntries (httpsList ! i))) \<and>
         (flattenHTTPS httpsList ! i) ''request_max_bytes'' =
           Some (VUint (HTTPS.RequestMaxBytes (httpsList ! i))) \<and>
         (flattenHTTPS httpsList ! i) ''format_version'' =
           Some (VUint (HTTPS.FormatVersion (httpsList ! i)))"
proof -
  have p: "\<forall>k v. flatten_one (httpsList ! i) k = Some v \<longrightarrow> v \<noteq> VString ''''"
    by (auto simp: flatten_one_def prune_apply split: option.splits if_splits)
  show ?thesis
    unfolding flattenHTTPS_nth [OF assms]
    using p
    by (simp only: flatten_one_string_fields flatten_one_identity_fields
        flatten_one_numeric_fields) simp
qed

theorem flattenHTTPS_prunes_empty_strings_witness:
  "(0::nat) < length [demo_https ''a'' ''https://a.example''] \<and>
   HTTPS.ContentType (demo_https ''a'' ''https://a.example'') = '''' \<and>
   (flattenHTTPS [demo_https ''a'' ''https://a.example''] ! 0) ''content_type'' = None \<and>
   (flattenHTTPS [demo_https ''a'' ''https://a.example''] ! 0) ''method'' = Some (VString ''POST'') \<and>
   (flattenHTTPS [demo_https ''a'' ''https://a.example''] ! 0) ''request_max_bytes'' = Some (VUint 0)"
proof -
  have h: "(0::nat) < length [demo_https ''a'' ''https://a.example'']" by simp
  have c: "HTTPS.ContentType (demo_https ''a'' ''https://a.example'') = ''''"
    "HTTPS.Method (demo_https ''a'' ''https://a.example'') = ''POST''"
    "HTTPS.RequestMaxBytes (demo_https ''a'' ''https://a.example'') = 0"
    by (simp_all add: demo_https_def)
  from flattenHTTPS_prunes_empty_strings [OF h] h c show ?thesis
    by simp
qed

text \<open>
  Claim C10. The pruning does not spare the identity fields: a server-side record whose
  \<open>name\<close> is the empty string is flattened into a map without the key \<open>name\<close>, and
  one whose \<open>url\<close> is the empty string into a map without the key \<open>url\<close>.
\<close>

theorem flattenHTTPS_prunes_identity_fields:
  assumes "i < length httpsList"
  shows "(HTTPS.Name (httpsList ! i) = '''' \<longrightarrow> (flattenHTTPS httpsList ! i) ''name'' = None) \<and>
         (HTTPS.URL (httpsList ! i) = '''' \<longrightarrow> (flattenHTTPS httpsList ! i) ''url'' = None) \<and>
         (HTTPS.Name (httpsList ! i) \<noteq> '''' \<longrightarrow>
            (flattenHTTPS httpsList ! i) ''name'' = Some (VString (HTTPS.Name (httpsList ! i)))) \<and>
         (HTTPS.URL (httpsList ! i) \<noteq> '''' \<longrightarrow>
            (flattenHTTPS httpsList ! i) ''url'' = Some (VString (HTTPS.URL (httpsList ! i))))"
  unfolding flattenHTTPS_nth [OF assms] by (simp add: flatten_one_identity_fields)

theorem flattenHTTPS_prunes_identity_fields_witness:
  "(1::nat) < length [demo_https ''a'' ''https://a.example'', demo_https '''' ''''] \<and>
   HTTPS.Name ([demo_https ''a'' ''https://a.example'', demo_https '''' ''''] ! 1) = '''' \<and>
   HTTPS.URL ([demo_https ''a'' ''https://a.example'', demo_https '''' ''''] ! 1) = '''' \<and>
   (flattenHTTPS [demo_https ''a'' ''https://a.example'', demo_https '''' ''''] ! 1) ''name'' = None \<and>
   (flattenHTTPS [demo_https ''a'' ''https://a.example'', demo_https '''' ''''] ! 1) ''url'' = None \<and>
   (flattenHTTPS [demo_https ''a'' ''https://a.example'', demo_https '''' ''''] ! 0) ''name''
     = Some (VString ''a'')"
proof -
  have h: "(1::nat) < length [demo_https ''a'' ''https://a.example'', demo_https '''' '''']"
          "(0::nat) < length [demo_https ''a'' ''https://a.example'', demo_https '''' '''']"
    by simp_all
  have c: "HTTPS.Name (demo_https n u) = n" "HTTPS.URL (demo_https n u) = u" for n u
    by (simp_all add: demo_https_def)
  from flattenHTTPS_prunes_identity_fields [OF h(1)]
       flattenHTTPS_prunes_identity_fields [OF h(2)] c show ?thesis
    by simp
qed

subsection \<open>Deleting an endpoint\<close>

text \<open>
  Claim C5. When the API call of a delete fails with an \<open>*HTTPError\<close> whose status
  code is 404, \<open>deleteHTTPS\<close> returns no error; when it fails with any other error, an
  \<open>*HTTPError\<close> of another status or an error of another kind, \<open>deleteHTTPS\<close> returns
  that error; when it succeeds, so does \<open>deleteHTTPS\<close>. The state of the remote service
  is the one the API call left.
\<close>

theorem deleteHTTPS_tolerates_404:
  "(DeleteHTTPS conn i st = (Some (HTTPError 404), st1) \<longrightarrow>
      deleteHTTPS conn i st = (None, st1)) \<and>
   (DeleteHTTPS conn i st = (Some err, st1) \<and> err \<noteq> HTTPError 404 \<longrightarrow>
      deleteHTTPS conn i st = (Some err, st1)) \<and>
   (DeleteHTTPS conn i st = (None, st1) \<longrightarrow> deleteHTTPS conn i st = (None, st1))"
  by (cases err) (simp_all add: deleteHTTPS_def)

theorem deleteHTTPS_tolerates_404_witness:
  "deleteHTTPS demo_conn \<lparr>DeleteHTTPSInput.Service = ''svc'', Version = 1, Name = ''gone''\<rparr> [''a'']
     = (None, [''a'']) \<and>
   deleteHTTPS broken_conn \<lparr>DeleteHTTPSInput.Service = ''svc'', Version = 1, Name = ''a''\<rparr> [''a'']
     = (Some (HTTPError 500), [''a'']) \<and>
   deleteHTTPS demo_conn \<lparr>DeleteHTTPSInput.Service = ''svc'', Version = 1, Name = ''a''\<rparr> [''a'']
     = (None, [])"
proof -
  have a: "DeleteHTTPS demo_conn
             \<lparr>DeleteHTTPSInput.Service = ''svc'', Version = 1, Name = ''gone''\<rparr> [''a'']
           = (Some (HTTPError 404), [''a''])"
    by (simp add: demo_conn_def)
  have b: "DeleteHTTPS broken_conn
             \<lparr>DeleteHTTPSInput.Service = ''svc'', Version = 1, Name = ''a''\<rparr> [''a'']
           = (Some (HTTPError 500), [''a'']) \<and> HTTPError 500 \<noteq> HTTPError 404"
    by (simp add: broken_conn_def)
  have c: "DeleteHTTPS demo_conn
             \<lparr>DeleteHTTPSInput.Service = ''svc'', Version = 1, Name = ''a''\<rparr> [''a'']
           = (None, [])"
    by (simp add: demo_conn_def)
  from deleteHTTPS_tolerates_404
         [of demo_conn "\<lparr>DeleteHTTPSInput.Service = ''svc'', Version = 1, Name = ''gone''\<rparr>"
             "[''a'']" "[''a'']" "HTTPError 500"]
       deleteHTTPS_tolerates_404
         [of broken_conn "\<lparr>DeleteHTTPSInput.Service = ''svc'', Version = 1, Name = ''a''\<rparr>"
             "[''a'']" "[''a'']" "HTTPError 500"]
       deleteHTTPS_tolerates_404
         [of demo_conn "\<lparr>DeleteHTTPSInput.Service = ''svc'', Version = 1, Name = ''a''\<rparr>"
             "[''a'']" "[]" "HTTPError 500"]
       a b c
  show ?thesis by simp
qed

subsection \<open>The reconciler: the two differences\<close>

lemma set_Difference: "set (Difference s other) = set s - set other"
  by (auto simp: Difference_def)

lemma endpoint_name: "endpoint name url ''name'' = Some (VString name)"
  by (simp add: endpoint_def)

lemma endpoint_url: "endpoint name url ''url'' = Some (VString url)"
  by (simp add: endpoint_def)

lemma endpoint_eq_iff: "endpoint n u = endpoint n' u' \<longleftrightarrow> n = n' \<and> u = u'"
proof
  assume e: "endpoint n u = endpoint n' u'"
  from arg_cong [OF e, of "\<lambda>f. f ''name''"] have "n = n'"
    by (simp only: endpoint_name option.inject val.inject)
  moreover from arg_cong [OF e, of "\<lambda>f. f ''url''"] have "u = u'"
    by (simp only: endpoint_url option.inject val.inject)
  ultimately show "n = n' \<and> u = u'" ..
qed simp

text \<open>
  Claim C3. The entries \<open>processHTTPS\<close> removes are those of the old set that are not
  in the new set, and the entries it adds are those of the new set that are not in the
  old set, an entry being in a set when it is equal to one of its entries as a whole;
  an entry of both sets is in neither slice.
\<close>

theorem reconciler_differences:
  "set (removeHTTPSLogging d) = set (ohs d) - set (nhs d) \<and>
   set (addHTTPSLogging d) = set (nhs d) - set (ohs d) \<and>
   (\<forall>e \<in> set (ohs d) \<inter> set (nhs d).
      e \<notin> set (removeHTTPSLogging d) \<and> e \<notin> set (addHTTPSLogging d))"
  by (simp add: removeHTTPSLogging_def addHTTPSLogging_def Set_List_def set_Difference)

subsection \<open>The reconciler: the two loops\<close>

lemma exec_DeleteCall: "exec conn (DeleteCall i) st = deleteHTTPS conn i st"
  by (simp add: exec_def)

lemma exec_CreateCall: "exec conn (CreateCall i) st = createHTTPS conn i st"
  by (simp add: exec_def)

lemma run_append: "run conn (xs @ ys) st = run conn ys (run conn xs st)"
  by (induction xs arbitrary: st) simp_all

lemma results_append:
  "results conn (xs @ ys) st = results conn xs st @ results conn ys (run conn xs st)"
  by (induction xs arbitrary: st) simp_all

lemma delete_loop_spec:
  "delete_loop conn sid v xs st = (r, st', calls) \<Longrightarrow>
     st' = run conn calls st \<and>
     (\<exists>ds. calls = map DeleteCall ds \<and>
           prefix (map Inr ds) (map (\<lambda>e. buildDeleteHTTPS e sid v) xs) \<and>
           (r = Inr None \<longrightarrow> map Inr ds = map (\<lambda>e. buildDeleteHTTPS e sid v) xs)) \<and>
     (r = Inr None \<longrightarrow> results conn calls st = map (\<lambda>_. None) calls) \<and>
     (\<forall>err. r = Inr (Some err) \<longrightarrow>
        (\<exists>pre c. calls = pre @ [c] \<and> results conn calls st = map (\<lambda>_. None) pre @ [Some err]))"
proof (induction xs arbitrary: st r st' calls)
  case Nil
  then show ?case by auto
next
  case (Cons oRaw rest)
  show ?case
  proof (cases "buildDeleteHTTPS oRaw sid v")
    case (Inl p)
    with Cons.prems show ?thesis by auto
  next
    case (Inr opts)
    obtain e st1 where d: "deleteHTTPS conn opts st = (e, st1)" by (cases "deleteHTTPS conn opts st")
    show ?thesis
    proof (cases e)
      case (Some err)
      with Cons.prems Inr d have "r = Inr (Some err)" "st' = st1" "calls = [DeleteCall opts]"
        by simp_all
      then show ?thesis using d Some Inr
        by (auto simp: exec_DeleteCall intro: exI [of _ "[opts]"])
    next
      case None
      obtain r2 st2 calls2 where l: "delete_loop conn sid v rest st1 = (r2, st2, calls2)"
        by (cases "delete_loop conn sid v rest st1")
      with Cons.prems Inr d None have eq: "r = r2" "st' = st2" "calls = DeleteCall opts # calls2"
        by simp_all
      from Cons.IH [OF l] obtain ds where
        ih: "st2 = run conn calls2 st1" "calls2 = map DeleteCall ds"
          "prefix (map Inr ds) (map (\<lambda>e. buildDeleteHTTPS e sid v) rest)"
          "r2 = Inr None \<longrightarrow> map Inr ds = map (\<lambda>e. buildDeleteHTTPS e sid v) rest"
          "r2 = Inr None \<longrightarrow> results conn calls2 st1 = map (\<lambda>_. None) calls2"
          "\<forall>err. r2 = Inr (Some err) \<longrightarrow>
             (\<exists>pre c. calls2 = pre @ [c] \<and> results conn calls2 st1 = map (\<lambda>_. None) pre @ [Some err])"
        by blast
      have a: "st' = run conn calls st"
        using eq ih(1) d None by (simp add: exec_DeleteCall)
      have b: "\<exists>ds. calls = map DeleteCall ds \<and>
           prefix (map Inr ds) (map (\<lambda>e. buildDeleteHTTPS e sid v) (oRaw # rest)) \<and>
           (r = Inr None \<longrightarrow> map Inr ds = map (\<lambda>e. buildDeleteHTTPS e sid v) (oRaw # rest))"
        using eq ih(2,3,4) Inr by (intro exI [of _ "opts # ds"]) simp
      have c: "r = Inr None \<longrightarrow> results conn calls st = map (\<lambda>_. None) calls"
        using eq ih(5) d None by (simp add: exec_DeleteCall)
      have e: "\<forall>err. r = Inr (Some err) \<longrightarrow>
        (\<exists>pre c. calls = pre @ [c] \<and> results conn calls st = map (\<lambda>_. None) pre @ [Some err])"
      proof (intro allI impI)
        fix err assume "r = Inr (Some err)"
        with eq ih(6) obtain pre c where
          p: "calls2 = pre @ [c]" "results conn calls2 st1 = map (\<lambda>_. None) pre @ [Some err]"
          by blast
        show "\<exists>pre c. calls = pre @ [c] \<and> results conn calls st = map (\<lambda>_. None) pre @ [Some err]"
          using eq p d None
          by (intro exI [of _ "DeleteCall opts # pre"] exI [of _ c]) (simp add: exec_DeleteCall)
      qed
      from a b c e show ?thesis by blast
    qed
  qed
qed

lemma create_loop_spec:
  "create_loop conn sid v xs st = (r, st', calls) \<Longrightarrow>
     st' = run conn calls st \<and>
     (\<exists>cs. calls = map CreateCall cs \<and>
           prefix (map Inr cs) (map (\<lambda>e. buildCreateHTTPS e sid v) xs) \<and>
           (r = Inr None \<longrightarrow> map Inr cs = map (\<lambda>e. buildCreateHTTPS e sid v) xs)) \<and>
     (r = Inr None \<longrightarrow> results conn calls st = map (\<lambda>_. None) calls) \<and>
     (\<forall>err. r = Inr (Some err) \<longrightarrow>
        (\<exists>pre c. calls = pre @ [c] \<and> results conn calls st = map (\<lambda>_. None) pre @ [Some err]))"
proof (induction xs arbitrary: st r st' calls)
  case Nil
  then show ?case by auto
next
  case (Cons nRaw rest)
  show ?case
  proof (cases "buildCreateHTTPS nRaw sid v")
    case (Inl p)
    with Cons.prems show ?thesis by auto
  next
    case (Inr opts)
    obtain e st1 where d0: "createHTTPS conn opts st = (e, st1)" by (cases "createHTTPS conn opts st")
    show ?thesis
    proof (cases e)
      case (Some err)
      with Cons.prems Inr d0 have "r = Inr (Some err)" "st' = st1" "calls = [CreateCall opts]"
        by simp_all
      then show ?thesis using d0 Some Inr
        by (auto simp: exec_CreateCall intro: exI [of _ "[opts]"])
    next
      case None
      obtain r2 st2 calls2 where l: "create_loop conn sid v rest st1 = (r2, st2, calls2)"
        by (cases "create_loop conn sid v rest st1")
      with Cons.prems Inr d0 None have eq: "r = r2" "st' = st2" "calls = CreateCall opts # calls2"
        by simp_all
      from Cons.IH [OF l] obtain cs where
        ih: "st2 = run conn calls2 st1" "calls2 = map CreateCall cs"
          "prefix (map Inr cs) (map (\<lambda>e. buildCreateHTTPS e sid v) rest)"
          "r2 = Inr None \<longrightarrow> map Inr cs = map (\<lambda>e. buildCreateHTTPS e sid v) rest"
          "r2 = Inr None \<longrightarrow> results conn calls2 st1 = map (\<lambda>_. None) calls2"
          "\<forall>err. r2 = Inr (Some err) \<longrightarrow>
             (\<exists>pre c. calls2 = pre @ [c] \<and> results conn calls2 st1 = map (\<lambda>_. None) pre @ [Some err])"
        by blast
      have a: "st' = run conn calls st"
        using eq ih(1) d0 None by (simp add: exec_CreateCall)
      have b: "\<exists>cs. calls = map CreateCall cs \<and>
           prefix (map Inr cs) (map (\<lambda>e. buildCreateHTTPS e sid v) (nRaw # rest)) \<and>
           (r = Inr None \<longrightarrow> map Inr cs = map (\<lambda>e. buildCreateHTTPS e sid v) (nRaw # rest))"
        using eq ih(2,3,4) Inr by (intro exI [of _ "opts # cs"]) simp
      have c: "r = Inr None \<longrightarrow> results conn calls st = map (\<lambda>_. None) calls"
        using eq ih(5) d0 None by (simp add: exec_CreateCall)
      have e: "\<forall>err. r = Inr (Some err) \<longrightarrow>
        (\<exists>pre c. calls = pre @ [c] \<and> results conn calls st = map (\<lambda>_. None) pre @ [Some err])"
      proof (intro allI impI)
        fix err assume "r = Inr (Some err)"
        with eq ih(6) obtain pre c where
          p: "calls2 = pre @ [c]" "results conn calls2 st1 = map (\<lambda>_. None) pre @ [Some err]"
          by blast
        show "\<exists>pre c. calls = pre @ [c] \<and> results conn calls st = map (\<lambda>_. None) pre @ [Some err]"
          using eq p d0 None
          by (intro exI [of _ "CreateCall opts # pre"] exI [of _ c]) (simp add: exec_CreateCall)
      qed
      from a b c e show ?thesis by blast
    qed
  qed
qed


lemma map_Inr_DeleteCall:
  "map Inr (map DeleteCall ds) = map (map_sum id DeleteCall) (map Inr ds)"
  by simp

lemma map_Inr_CreateCall:
  "map Inr (map CreateCall cs) = map (map_sum id CreateCall) (map Inr cs)"
  by simp

text \<open>
  Claim C4. The calls \<open>processHTTPS\<close> makes are deletes followed by creates, each
  group in the order of its slice, and no other call, so no update; and as soon as one
  create has been issued, the deletes before it are those of all the entries to remove.
\<close>

theorem processHTTPS_deletes_before_creates:
  "\<exists>ds cs. snd (snd (processHTTPS d conn latestVersion st)) = map DeleteCall ds @ map CreateCall cs \<and>
     prefix (map Inr ds) (delete_inputs d latestVersion) \<and>
     prefix (map Inr cs) (create_inputs d latestVersion) \<and>
     (cs \<noteq> [] \<longrightarrow> map Inr ds = delete_inputs d latestVersion)"
proof -
  obtain r1 st1 calls1 where
    l1: "delete_loop conn (Id d) latestVersion (removeHTTPSLogging d) st = (r1, st1, calls1)"
    by (cases "delete_loop conn (Id d) latestVersion (removeHTTPSLogging d) st")
  from delete_loop_spec [OF l1] obtain ds where
    ds: "calls1 = map DeleteCall ds" "prefix (map Inr ds) (delete_inputs d latestVersion)"
      "r1 = Inr None \<longrightarrow> map Inr ds = delete_inputs d latestVersion"
    unfolding delete_inputs_def by blast
  show ?thesis
  proof (cases "r1 = Inr None")
    case True
    obtain r2 st2 calls2 where
      l2: "create_loop conn (Id d) latestVersion (addHTTPSLogging d) st1 = (r2, st2, calls2)"
      by (cases "create_loop conn (Id d) latestVersion (addHTTPSLogging d) st1")
    from create_loop_spec [OF l2] obtain cs where
      cs: "calls2 = map CreateCall cs" "prefix (map Inr cs) (create_inputs d latestVersion)"
      unfolding create_inputs_def by blast
    have "snd (snd (processHTTPS d conn latestVersion st)) = calls1 @ calls2"
      using l1 l2 True by (simp add: processHTTPS_def)
    with ds cs True show ?thesis by blast
  next
    case False
    have "snd (snd (processHTTPS d conn latestVersion st)) = calls1"
      using l1 False by (simp add: processHTTPS_def split: sum.splits option.splits)
    then have "snd (snd (processHTTPS d conn latestVersion st)) = map DeleteCall ds @ map CreateCall []"
      using ds(1) by simp
    with ds(2) show ?thesis
      by (intro exI [of _ ds] exI [of _ "[]"]) simp
  qed
qed

subsection \<open>The reconciler follows its plan\<close>

text \<open>
  \<open>processHTTPS\<close> is the replay of its planned calls, in all three outcomes: success,
  error and panic.
\<close>

lemma replay_append:
  "replay conn (xs @ ys) st =
     (case replay conn xs st of
        (Inr None, st', calls) \<Rightarrow>
          (case replay conn ys st' of (r, st'', calls') \<Rightarrow> (r, st'', calls @ calls'))
      | (r, st', calls) \<Rightarrow> (r, st', calls))"
proof (induction xs arbitrary: st)
  case Nil
  show ?case by (simp split: prod.splits)
next
  case (Cons x xs)
  show ?case
  proof (cases x)
    case (Inl p)
    then show ?thesis by simp
  next
    case (Inr c)
    obtain e s1 where x: "exec conn c st = (e, s1)" by (cases "exec conn c st")
    show ?thesis
    proof (cases e)
      case None
      with Inr x Cons.IH [of s1] show ?thesis
        by (simp split: prod.splits sum.splits option.splits)
    next
      case (Some err)
      with Inr x show ?thesis by simp
    qed
  qed
qed

lemma delete_loop_replay:
  "delete_loop conn sid v xs st =
     replay conn (map (map_sum id DeleteCall) (map (\<lambda>e. buildDeleteHTTPS e sid v) xs)) st"
proof (induction xs arbitrary: st)
  case Nil
  show ?case by simp
next
  case (Cons oRaw rest)
  show ?case
  proof (cases "buildDeleteHTTPS oRaw sid v")
    case (Inl p)
    then show ?thesis by simp
  next
    case (Inr opts)
    then show ?thesis
      by (simp add: exec_DeleteCall Cons.IH split: prod.splits option.splits)
  qed
qed

lemma create_loop_replay:
  "create_loop conn sid v xs st =
     replay conn (map (map_sum id CreateCall) (map (\<lambda>e. buildCreateHTTPS e sid v) xs)) st"
proof (induction xs arbitrary: st)
  case Nil
  show ?case by simp
next
  case (Cons nRaw rest)
  show ?case
  proof (cases "buildCreateHTTPS nRaw sid v")
    case (Inl p)
    then show ?thesis by simp
  next
    case (Inr opts)
    then show ?thesis
      by (simp add: exec_CreateCall Cons.IH split: prod.splits option.splits)
  qed
qed

lemma processHTTPS_replay:
  "processHTTPS d conn latestVersion st = replay conn (planned d latestVersion) st"
  unfolding processHTTPS_def Let_def delete_loop_replay create_loop_replay planned_def
    delete_inputs_def create_inputs_def replay_append
  by (rule refl)

lemma replay_error_D:
  "replay conn pl st = (Inr (Some err), st', calls) \<Longrightarrow>
     \<exists>before failing rest.
       pl = map Inr before @ Inr failing # rest \<and>
       calls = before @ [failing] \<and>
       results conn calls st = map (\<lambda>_. None) before @ [Some err] \<and>
       st' = run conn calls st"
proof (induction pl arbitrary: st calls)
  case Nil
  then show ?case by simp
next
  case (Cons x pl)
  show ?case
  proof (cases x)
    case (Inl p)
    with Cons.prems show ?thesis by simp
  next
    case (Inr c)
    obtain e s1 where x: "exec conn c st = (e, s1)" by (cases "exec conn c st")
    show ?thesis
    proof (cases e)
      case (Some e')
      with Cons.prems Inr x have "e' = err" "st' = s1" "calls = [c]" by simp_all
      with Inr x Some show ?thesis
        by (intro exI [of _ "[]"] exI [of _ c] exI [of _ pl]) simp
    next
      case None
      obtain r2 s2 calls2 where l: "replay conn pl s1 = (r2, s2, calls2)"
        by (cases "replay conn pl s1")
      with Cons.prems Inr x None have eq: "r2 = Inr (Some err)" "s2 = st'" "calls = c # calls2"
        by simp_all
      from Cons.IH [of s1 calls2] l eq obtain before failing rest where
        ih: "pl = map Inr before @ Inr failing # rest" "calls2 = before @ [failing]"
          "results conn calls2 s1 = map (\<lambda>_. None) before @ [Some err]"
          "st' = run conn calls2 s1"
        by blast
      show ?thesis
        using Inr x None eq ih
        by (intro exI [of _ "c # before"] exI [of _ failing] exI [of _ rest]) simp
    qed
  qed
qed

lemma replay_error_I:
  "pl = map Inr before @ Inr failing # rest \<Longrightarrow>
   results conn (before @ [failing]) st = map (\<lambda>_. None) before @ [Some err] \<Longrightarrow>
   replay conn pl st =
     (Inr (Some err), run conn (before @ [failing]) st, before @ [failing])"
proof (induction before arbitrary: st pl)
  case Nil
  obtain e s1 where x: "exec conn failing st = (e, s1)" by (cases "exec conn failing st")
  with Nil show ?case by simp
next
  case (Cons b before)
  obtain e s1 where x: "exec conn b st = (e, s1)" by (cases "exec conn b st")
  from Cons.prems(2) x have b: "e = None"
    and r: "results conn (before @ [failing]) s1 = map (\<lambda>_. None) before @ [Some err]"
    by simp_all
  from Cons.IH [OF refl r] Cons.prems(1) b x show ?case
    by simp
qed

text \<open>
  Claim C7. \<open>processHTTPS\<close> returns an error exactly when some planned call, built
  without panic like all the calls before it, returns that error after every earlier
  call returned none. The calls made are then the planned calls up to and including the
  failing one, so the entries after it are not attempted, and the remote service is in
  the state these calls left it in, so nothing that was applied is undone.
\<close>

theorem processHTTPS_aborts_at_first_error:
  "processHTTPS d conn latestVersion st = (Inr (Some err), st', calls) \<longleftrightarrow>
     (\<exists>before failing rest.
        planned d latestVersion = map Inr before @ Inr failing # rest \<and>
        calls = before @ [failing] \<and>
        results conn calls st = map (\<lambda>_. None) before @ [Some err] \<and>
        st' = run conn calls st)"
proof
  assume "processHTTPS d conn latestVersion st = (Inr (Some err), st', calls)"
  then show "\<exists>before failing rest.
        planned d latestVersion = map Inr before @ Inr failing # rest \<and>
        calls = before @ [failing] \<and>
        results conn calls st = map (\<lambda>_. None) before @ [Some err] \<and>
        st' = run conn calls st"
    unfolding processHTTPS_replay by (rule replay_error_D)
next
  assume "\<exists>before failing rest.
        planned d latestVersion = map Inr before @ Inr failing # rest \<and>
        calls = before @ [failing] \<and>
        results conn calls st = map (\<lambda>_. None) before @ [Some err] \<and>
        st' = run conn calls st"
  then obtain before failing rest where
    a: "planned d latestVersion = map Inr before @ Inr failing # rest"
       "calls = before @ [failing]"
       "results conn calls st = map (\<lambda>_. None) before @ [Some err]"
       "st' = run conn calls st"
    by blast
  from replay_error_I [OF a(1) a(3) [unfolded a(2)]] a(2,4)
  show "processHTTPS d conn latestVersion st = (Inr (Some err), st', calls)"
    unfolding processHTTPS_replay by simp
qed

lemma replay_success_iff:
  "replay conn pl st = (Inr None, st', calls) \<longleftrightarrow>
     pl = map Inr calls \<and> results conn calls st = map (\<lambda>_. None) calls \<and> st' = run conn calls st"
proof (induction pl arbitrary: st calls)
  case Nil
  show ?case by auto
next
  case (Cons x pl)
  show ?case
  proof (cases x)
    case (Inl p)
    then show ?thesis by auto
  next
    case (Inr c)
    obtain e s1 where x: "exec conn c st = (e, s1)" by (cases "exec conn c st")
    show ?thesis
    proof (cases e)
      case (Some e')
      with Inr x show ?thesis by (cases calls) auto
    next
      case None
      obtain r2 s2 calls2 where l: "replay conn pl s1 = (r2, s2, calls2)"
        by (cases "replay conn pl s1")
      have step: "replay conn (x # pl) st = (r2, s2, c # calls2)"
        using Inr x None l by simp
      show ?thesis
      proof
        assume "replay conn (x # pl) st = (Inr None, st', calls)"
        with step l have "replay conn pl s1 = (Inr None, st', calls2)" "calls = c # calls2"
          by simp_all
        with Cons.IH [of s1 calls2] Inr x None
        show "x # pl = map Inr calls \<and> results conn calls st = map (\<lambda>_. None) calls \<and>
              st' = run conn calls st"
          by simp
      next
        assume a: "x # pl = map Inr calls \<and> results conn calls st = map (\<lambda>_. None) calls \<and>
              st' = run conn calls st"
        then obtain cs where cs: "calls = c # cs" "pl = map Inr cs"
          using Inr by (cases calls) auto
        with a x have "results conn cs s1 = map (\<lambda>_. None) cs" "st' = run conn cs s1"
          by simp_all
        with cs(2) Cons.IH [of s1 cs] have "replay conn pl s1 = (Inr None, st', cs)"
          by simp
        with step l cs show "replay conn (x # pl) st = (Inr None, st', calls)"
          by simp
      qed
    qed
  qed
qed

lemma replay_panic_iff:
  "replay conn pl st = (Inl p, st', calls) \<longleftrightarrow>
     (\<exists>rest. pl = map Inr calls @ Inl p # rest) \<and>
     results conn calls st = map (\<lambda>_. None) calls \<and> st' = run conn calls st"
proof (induction pl arbitrary: st calls)
  case Nil
  show ?case by auto
next
  case (Cons x pl)
  show ?case
  proof (cases x)
    case (Inl q)
    then show ?thesis by (cases calls) auto
  next
    case (Inr c)
    obtain e s1 where x: "exec conn c st = (e, s1)" by (cases "exec conn c st")
    show ?thesis
    proof (cases e)
      case (Some e')
      with Inr x show ?thesis by (cases calls) auto
    next
      case None
      obtain r2 s2 calls2 where l: "replay conn pl s1 = (r2, s2, calls2)"
        by (cases "replay conn pl s1")
      have step: "replay conn (x # pl) st = (r2, s2, c # calls2)"
        using Inr x None l by simp
      show ?thesis
      proof
        assume "replay conn (x # pl) st = (Inl p, st', calls)"
        with step l have "replay conn pl s1 = (Inl p, st', calls2)" "calls = c # calls2"
          by simp_all
        with Cons.IH [of s1 calls2] Inr x None
        show "(\<exists>rest. x # pl = map Inr calls @ Inl p # rest) \<and>
              results conn calls st = map (\<lambda>_. None) calls \<and> st' = run conn calls st"
          by simp
      next
        assume a: "(\<exists>rest. x # pl = map Inr calls @ Inl p # rest) \<and>
              results conn calls st = map (\<lambda>_. None) calls \<and> st' = run conn calls st"
        then obtain cs where cs: "calls = c # cs" "\<exists>rest. pl = map Inr cs @ Inl p # rest"
          using Inr by (cases calls) auto
        with a x have "results conn cs s1 = map (\<lambda>_. None) cs" "st' = run conn cs s1"
          by simp_all
        with cs(2) Cons.IH [of s1 cs] have "replay conn pl s1 = (Inl p, st', cs)"
          by simp
        with step l cs show "replay conn (x # pl) st = (Inl p, st', calls)"
          by simp
      qed
    qed
  qed
qed

lemma processHTTPS_succeeds_iff:
  "processHTTPS d conn latestVersion st = (Inr None, st', calls) \<longleftrightarrow>
     planned d latestVersion = map Inr calls \<and>
     results conn calls st = map (\<lambda>_. None) calls \<and> st' = run conn calls st"
  unfolding processHTTPS_replay by (rule replay_success_iff)

lemma processHTTPS_panics_iff:
  "processHTTPS d conn latestVersion st = (Inl p, st', calls) \<longleftrightarrow>
     (\<exists>rest. planned d latestVersion = map Inr calls @ Inl p # rest) \<and>
     results conn calls st = map (\<lambda>_. None) calls \<and> st' = run conn calls st"
  unfolding processHTTPS_replay by (rule replay_panic_iff)

subsection \<open>The reconciler on the example service\<close>

lemma buildDeleteHTTPS_endpoint:
  "buildDeleteHTTPS (endpoint name url) sid v =
     Inr \<lparr>DeleteHTTPSInput.Service = sid, Version = v, Name = name\<rparr>"
  by (simp add: buildDeleteHTTPS_def bind_def assert_string_def endpoint_name)

lemma buildCreateHTTPS_endpoint:
  "buildCreateHTTPS (endpoint name url) sid v =
     Inr \<lparr>CreateHTTPSInput.Service = sid, Version = v, Name = name,
          URL = url, RequestMaxEntries = 0, RequestMaxBytes = 0,
          ContentType = '''', HeaderName = '''', HeaderValue = '''', Method = ''POST'',
          JSONFormat = ''0'', TLSCACert = '''', TLSClientCert = '''', TLSClientKey = '''',
          TLSHostname = '''', Format = '''', FormatVersion = 2, MessageType = ''blank'',
          Placement = '''', ResponseCondition = ''''\<rparr>"
  by (simp add: buildCreateHTTPS_def bind_def assert_string_def assert_int_def endpoint_def
      to_uint_def)

lemma demo_Id: "Id (demo_change old new) = ''svc''"
  by (simp add: demo_change_def)

lemma demo_ohs: "ohs (demo_change old new) = old"
  by (simp add: ohs_def demo_change_def)

lemma demo_nhs: "nhs (demo_change old new) = new"
  by (simp add: nhs_def demo_change_def)

lemma demo_removeHTTPSLogging:
  "removeHTTPSLogging (demo_change old new) = filter (\<lambda>e. e \<notin> set new) old"
  by (simp add: removeHTTPSLogging_def Set_List_def Difference_def ohs_def nhs_def demo_change_def)

lemma demo_addHTTPSLogging:
  "addHTTPSLogging (demo_change old new) = filter (\<lambda>e. e \<notin> set old) new"
  by (simp add: addHTTPSLogging_def Set_List_def Difference_def ohs_def nhs_def demo_change_def)

lemma demo_deleteHTTPS:
  "deleteHTTPS demo_conn \<lparr>DeleteHTTPSInput.Service = sid, Version = v, Name = name\<rparr> st =
     (None, removeAll name st)"
  by (simp add: deleteHTTPS_def demo_conn_def)

lemma demo_createHTTPS:
  "CreateHTTPSInput.Name i = name \<Longrightarrow>
   createHTTPS demo_conn i st =
     (if name \<in> set st then (Some (HTTPError 409), st) else (None, name # st))"
  by (simp add: createHTTPS_def demo_conn_def)

text \<open>
  The example of the spec: with the old set \<open>{A, B}\<close> and the new set \<open>{B, C}\<close>, the
  entry to remove is \<open>A\<close> and the entry to add is \<open>C\<close>.
\<close>

theorem reconciler_differences_witness:
  "removeHTTPSLogging
     (demo_change [endpoint ''A'' ''https://a.example'', endpoint ''B'' ''https://b.example'']
                  [endpoint ''B'' ''https://b.example'', endpoint ''C'' ''https://c.example''])
     = [endpoint ''A'' ''https://a.example''] \<and>
   addHTTPSLogging
     (demo_change [endpoint ''A'' ''https://a.example'', endpoint ''B'' ''https://b.example'']
                  [endpoint ''B'' ''https://b.example'', endpoint ''C'' ''https://c.example''])
     = [endpoint ''C'' ''https://c.example''] \<and>
   set [endpoint ''A'' ''https://a.example''] =
     set [endpoint ''A'' ''https://a.example'', endpoint ''B'' ''https://b.example''] -
     set [endpoint ''B'' ''https://b.example'', endpoint ''C'' ''https://c.example'']"
  using reconciler_differences
    [of "demo_change [endpoint ''A'' ''https://a.example'', endpoint ''B'' ''https://b.example'']
                  [endpoint ''B'' ''https://b.example'', endpoint ''C'' ''https://c.example'']"]
  by (simp add: demo_removeHTTPSLogging demo_addHTTPSLogging endpoint_eq_iff demo_ohs demo_nhs)

text \<open>On the example service the run deletes \<open>A\<close>, creates \<open>C\<close> and leaves \<open>B\<close> alone.\<close>

lemma processHTTPS_example_AB_BC:
  "processHTTPS
     (demo_change [endpoint ''A'' ''https://a.example'', endpoint ''B'' ''https://b.example'']
                  [endpoint ''B'' ''https://b.example'', endpoint ''C'' ''https://c.example''])
     demo_conn 1 [''A'', ''B''] =
   (Inr None, [''C'', ''B''],
    [DeleteCall \<lparr>DeleteHTTPSInput.Service = ''svc'', Version = 1, Name = ''A''\<rparr>,
     CreateCall \<lparr>CreateHTTPSInput.Service = ''svc'', Version = 1, Name = ''C'',
          URL = ''https://c.example'', RequestMaxEntries = 0, RequestMaxBytes = 0,
          ContentType = '''', HeaderName = '''', HeaderValue = '''', Method = ''POST'',
          JSONFormat = ''0'', TLSCACert = '''', TLSClientCert = '''', TLSClientKey = '''',
          TLSHostname = '''', Format = '''', FormatVersion = 2, MessageType = ''blank'',
          Placement = '''', ResponseCondition = ''''\<rparr>])"
  by (simp add: processHTTPS_def demo_removeHTTPSLogging demo_addHTTPSLogging endpoint_eq_iff
      buildDeleteHTTPS_endpoint buildCreateHTTPS_endpoint demo_deleteHTTPS demo_createHTTPS
      demo_Id Let_def)

text \<open>
  A rename and a change of the URL alone, run against the example service: each is one
  delete followed by one create.
\<close>

theorem processHTTPS_deletes_before_creates_witness:
  "snd (snd (processHTTPS
      (demo_change [endpoint ''old'' ''https://a.example''] [endpoint ''new'' ''https://a.example''])
      demo_conn 1 [''old''])) =
     [DeleteCall \<lparr>DeleteHTTPSInput.Service = ''svc'', Version = 1, Name = ''old''\<rparr>,
      CreateCall \<lparr>CreateHTTPSInput.Service = ''svc'', Version = 1, Name = ''new'',
          URL = ''https://a.example'', RequestMaxEntries = 0, RequestMaxBytes = 0,
          ContentType = '''', HeaderName = '''', HeaderValue = '''', Method = ''POST'',
          JSONFormat = ''0'', TLSCACert = '''', TLSClientCert = '''', TLSClientKey = '''',
          TLSHostname = '''', Format = '''', FormatVersion = 2, MessageType = ''blank'',
          Placement = '''', ResponseCondition = ''''\<rparr>] \<and>
   snd (snd (processHTTPS
      (demo_change [endpoint ''A'' ''https://a.example''] [endpoint ''A'' ''https://b.example''])
      demo_conn 1 [''A''])) =
     [DeleteCall \<lparr>DeleteHTTPSInput.Service = ''svc'', Version = 1, Name = ''A''\<rparr>,
      CreateCall \<lparr>CreateHTTPSInput.Service = ''svc'', Version = 1, Name = ''A'',
          URL = ''https://b.example'', RequestMaxEntries = 0, RequestMaxBytes = 0,
          ContentType = '''', HeaderName = '''', HeaderValue = '''', Method = ''POST'',
          JSONFormat = ''0'', TLSCACert = '''', TLSClientCert = '''', TLSClientKey = '''',
          TLSHostname = '''', Format = '''', FormatVersion = 2, MessageType = ''blank'',
          Placement = '''', ResponseCondition = ''''\<rparr>]"
  using processHTTPS_deletes_before_creates
    [of "demo_change [endpoint ''old'' ''https://a.example''] [endpoint ''new'' ''https://a.example'']"
        demo_conn 1 "[''old'']"]
    processHTTPS_deletes_before_creates
    [of "demo_change [endpoint ''A'' ''https://a.example''] [endpoint ''A'' ''https://b.example'']"
        demo_conn 1 "[''A'']"]
  by (simp add: processHTTPS_def demo_removeHTTPSLogging demo_addHTTPSLogging endpoint_eq_iff
      buildDeleteHTTPS_endpoint buildCreateHTTPS_endpoint demo_deleteHTTPS demo_createHTTPS
      demo_Id Let_def)

text \<open>
  A failing create, run against the example service: \<open>A\<close> is to be removed, \<open>B\<close> and
  \<open>C\<close> are to be added, and the service already holds a \<open>B\<close>. The delete of \<open>A\<close> is
  applied, the create of \<open>B\<close> answers 409, which is what the reconciler returns; \<open>C\<close>
  is never attempted, and \<open>A\<close> stays deleted.
\<close>

theorem processHTTPS_aborts_at_first_error_witness:
  "processHTTPS
     (demo_change [endpoint ''A'' ''https://a.example'']
                  [endpoint ''B'' ''https://b.example'', endpoint ''C'' ''https://c.example''])
     demo_conn 1 [''A'', ''B''] =
   (Inr (Some (HTTPError 409)), [''B''],
    [DeleteCall \<lparr>DeleteHTTPSInput.Service = ''svc'', Version = 1, Name = ''A''\<rparr>,
     CreateCall \<lparr>CreateHTTPSInput.Service = ''svc'', Version = 1, Name = ''B'',
          URL = ''https://b.example'', RequestMaxEntries = 0, RequestMaxBytes = 0,
          ContentType = '''', HeaderName = '''', HeaderValue = '''', Method = ''POST'',
          JSONFormat = ''0'', TLSCACert = '''', TLSClientCert = '''', TLSClientKey = '''',
          TLSHostname = '''', Format = '''', FormatVersion = 2, MessageType = ''blank'',
          Placement = '''', ResponseCondition = ''''\<rparr>])"
proof -
  let ?d = "demo_change [endpoint ''A'' ''https://a.example'']
              [endpoint ''B'' ''https://b.example'', endpoint ''C'' ''https://c.example'']"
  let ?delA = "DeleteCall \<lparr>DeleteHTTPSInput.Service = ''svc'', Version = 1, Name = ''A''\<rparr>"
  let ?creB = "CreateCall \<lparr>CreateHTTPSInput.Service = ''svc'', Version = 1, Name = ''B'',
          URL = ''https://b.example'', RequestMaxEntries = 0, RequestMaxBytes = 0,
          ContentType = '''', HeaderName = '''', HeaderValue = '''', Method = ''POST'',
          JSONFormat = ''0'', TLSCACert = '''', TLSClientCert = '''', TLSClientKey = '''',
          TLSHostname = '''', Format = '''', FormatVersion = 2, MessageType = ''blank'',
          Placement = '''', ResponseCondition = ''''\<rparr>"
  let ?creC = "CreateCall \<lparr>CreateHTTPSInput.Service = ''svc'', Version = 1, Name = ''C'',
          URL = ''https://c.example'', RequestMaxEntries = 0, RequestMaxBytes = 0,
          ContentType = '''', HeaderName = '''', HeaderValue = '''', Method = ''POST'',
          JSONFormat = ''0'', TLSCACert = '''', TLSClientCert = '''', TLSClientKey = '''',
          TLSHostname = '''', Format = '''', FormatVersion = 2, MessageType = ''blank'',
          Placement = '''', ResponseCondition = ''''\<rparr>"
  have p: "planned ?d 1 = map Inr [?delA] @ Inr ?creB # [Inr ?creC]"
    by (simp add: planned_def delete_inputs_def create_inputs_def demo_removeHTTPSLogging
        demo_addHTTPSLogging endpoint_eq_iff buildDeleteHTTPS_endpoint
        buildCreateHTTPS_endpoint demo_Id)
  have c: "[?delA, ?creB] = [?delA] @ [?creB]"
    by simp
  have r: "results demo_conn [?delA, ?creB] [''A'', ''B''] =
             map (\<lambda>_. None) [?delA] @ [Some (HTTPError 409)]"
    by (simp add: exec_DeleteCall exec_CreateCall demo_deleteHTTPS demo_createHTTPS)
  have s: "[''B''] = run demo_conn [?delA, ?creB] [''A'', ''B'']"
    by (simp add: exec_DeleteCall exec_CreateCall demo_deleteHTTPS demo_createHTTPS)
  from p c r s have
    "\<exists>before failing rest.
        planned ?d 1 = map Inr before @ Inr failing # rest \<and>
        [?delA, ?creB] = before @ [failing] \<and>
        results demo_conn [?delA, ?creB] [''A'', ''B''] =
          map (\<lambda>_. None) before @ [Some (HTTPError 409)] \<and>
        [''B''] = run demo_conn [?delA, ?creB] [''A'', ''B'']"
    by blast
  then show ?thesis
    by (rule processHTTPS_aborts_at_first_error [THEN iffD2])
qed

end
